theory Spec2Isabelle
  imports Complex_Main
begin

section \<open>JavaScript values\<close>

text \<open>
  The dashboard exchanges JSON documents with its backend.  A parsed document is a
  value of \<open>json\<close>; an object is the list of its entries, with unique keys, as
  \<^verbatim>\<open>JSON.parse\<close> builds it.  A number is a double; it is given by the text that
  \<^verbatim>\<open>ToString\<close> prints for it (\<^verbatim>\<open>57\<close>, \<^verbatim>\<open>0.5\<close>, \<^verbatim>\<open>1e+21\<close>), which
  determines it up to the sign of zero, and zero prints as \<^verbatim>\<open>0\<close>.  A property that is
  absent reads as \<^verbatim>\<open>undefined\<close>, which is \<open>None\<close> in a \<open>json option\<close>.
\<close>

datatype json =
    JNull
  | JBool bool
  | JNum string
  | JStr string
  | JArr "json list"
  | JObj "(string \<times> json) list"

text \<open>What JavaScript throws in the code under study.\<close>

datatype js_error =
    Thrown json        \<comment> \<open>\<^verbatim>\<open>throw error\<close> of an object built from a response\<close>
  | SyntaxError        \<comment> \<open>\<^verbatim>\<open>response.json()\<close> or \<^verbatim>\<open>JSON.parse\<close> on a text that is not JSON\<close>
  | TypeError          \<comment> \<open>a property of \<^verbatim>\<open>null\<close>, or a call of something that is no function\<close>
  | ReferenceError     \<comment> \<open>\<^verbatim>\<open>localStorage\<close> or \<^verbatim>\<open>sessionStorage\<close> where there is no window\<close>
  | NetworkError       \<comment> \<open>\<^verbatim>\<open>fetch\<close> rejects\<close>

text \<open>\<^verbatim>\<open>ToBoolean\<close>: what an \<^verbatim>\<open>if\<close>, \<^verbatim>\<open>&&\<close>, \<^verbatim>\<open>||\<close> or \<^verbatim>\<open>?:\<close> tests.\<close>

fun truthy :: "json \<Rightarrow> bool" where
  "truthy JNull = False"
| "truthy (JBool b) = b"
| "truthy (JNum n) = (n \<noteq> ''0'')"
| "truthy (JStr s) = (s \<noteq> [])"
| "truthy (JArr xs) = True"
| "truthy (JObj kvs) = True"

fun truthy_opt :: "json option \<Rightarrow> bool" where
  "truthy_opt None = False"
| "truthy_opt (Some v) = truthy v"

text \<open>
  \<^verbatim>\<open>x.key\<close> on a parsed document, for the keys the code reads (\<^verbatim>\<open>detail\<close>,
  \<^verbatim>\<open>csrf_token\<close>, \<^verbatim>\<open>access_token\<close>, \<^verbatim>\<open>refresh_token\<close>, \<^verbatim>\<open>user\<close>, \<^verbatim>\<open>is_admin\<close>; none
  of them is a built-in property): an object gives its entry, \<^verbatim>\<open>null\<close> throws, any
  other value gives \<^verbatim>\<open>undefined\<close>.
\<close>

fun get_prop :: "json \<Rightarrow> string \<Rightarrow> js_error + json option" where
  "get_prop JNull k = Inl TypeError"
| "get_prop (JObj kvs) k = Inr (map_of kvs k)"
| "get_prop v k = Inr None"

text \<open>The same read on a value already known not to be \<^verbatim>\<open>null\<close>.\<close>

definition field :: "json \<Rightarrow> string \<Rightarrow> json option" where
  "field v k = (case get_prop v k of Inl e \<Rightarrow> None | Inr x \<Rightarrow> x)"

text \<open>Decimal digits of a count, such as the status of a response in a template text.\<close>

fun show_nat :: "nat \<Rightarrow> string" where
  "show_nat n =
     (if n < 10 then [''0123456789'' ! n]
      else show_nat (n div 10) @ [''0123456789'' ! (n mod 10)])"

declare show_nat.simps [simp del]

fun join :: "string \<Rightarrow> string list \<Rightarrow> string" where
  "join sep [] = []"
| "join sep [x] = x"
| "join sep (x # y # ys) = x @ sep @ join sep (y # ys)"

text \<open>
  \<^verbatim>\<open>ToString\<close>, which \<^verbatim>\<open>Storage.setItem\<close> and the \<^verbatim>\<open>fetch\<close> headers apply to the
  value they are given.  An array joins its elements with commas, \<^verbatim>\<open>null\<close> elements
  as the empty string.
\<close>

fun js_string :: "json \<Rightarrow> string" where
  "js_string JNull = ''null''"
| "js_string (JBool b) = (if b then ''true'' else ''false'')"
| "js_string (JNum n) = n"
| "js_string (JStr s) = s"
| "js_string (JArr xs) = join '','' (map (\<lambda>x. if x = JNull then [] else js_string x) xs)"
| "js_string (JObj kvs) = ''[object Object]''"

fun js_string_opt :: "json option \<Rightarrow> string" where
  "js_string_opt None = ''undefined''"
| "js_string_opt (Some v) = js_string v"


section \<open>Strings\<close>

text \<open>
  A character of a string is a code unit below 256 (the Latin-1 range); texts with
  other code units are not represented.  The string methods the client uses:
  \<^verbatim>\<open>split\<close> with a separator of one character, \<^verbatim>\<open>trim\<close>, \<^verbatim>\<open>startsWith\<close>,
  \<^verbatim>\<open>includes\<close> and \<^verbatim>\<open>toUpperCase\<close>.  The white space that \<^verbatim>\<open>trim\<close> strips is, in
  this range, the tab, the line feed, the vertical tab, the form feed, the carriage
  return, the space and the no-break space U+00A0.  \<^verbatim>\<open>toUpperCase\<close> is given on the
  ASCII letters; no other character of the range becomes an ASCII letter, so the
  comparisons of the client with \<^verbatim>\<open>GET\<close>, \<^verbatim>\<open>POST\<close>, \<^verbatim>\<open>PUT\<close>, \<^verbatim>\<open>DELETE\<close> and
  \<^verbatim>\<open>PATCH\<close> come out as in the browser.
\<close>

fun split_on :: "char \<Rightarrow> string \<Rightarrow> string list" where
  "split_on c [] = [[]]"
| "split_on c (x # xs) =
     (if x = c then [] # split_on c xs
      else (case split_on c xs of
              [] \<Rightarrow> [[x]]
            | s # ss \<Rightarrow> (x # s) # ss))"

definition is_space :: "char \<Rightarrow> bool" where
  "is_space c =
     (c \<in> set [CHR '' '', CHR 0x09, CHR 0x0A, CHR 0x0B, CHR 0x0C, CHR 0x0D, CHR 0xA0])"

definition trim :: "string \<Rightarrow> string" where
  "trim s = rev (dropWhile is_space (rev (dropWhile is_space s)))"

definition startsWith :: "string \<Rightarrow> string \<Rightarrow> bool" where
  "startsWith s p = (take (length p) s = p)"

fun includes_str :: "string \<Rightarrow> string \<Rightarrow> bool" where
  "includes_str [] p = (p = [])"
| "includes_str (x # xs) p = (startsWith (x # xs) p \<or> includes_str xs p)"

definition upper_char :: "char \<Rightarrow> char" where
  "upper_char c =
     (case map_of (zip ''abcdefghijklmnopqrstuvwxyz'' ''ABCDEFGHIJKLMNOPQRSTUVWXYZ'') c of
        Some u \<Rightarrow> u
      | None \<Rightarrow> c)"

definition toUpperCase :: "string \<Rightarrow> string" where
  "toUpperCase s = map upper_char s"

definition truthy_str :: "string option \<Rightarrow> bool" where
  "truthy_str t = (case t of None \<Rightarrow> False | Some s \<Rightarrow> s \<noteq> [])"

section \<open>The browser and the backend\<close>

text \<open>
  A request as \<^verbatim>\<open>fetch\<close> receives it.  Every \<^verbatim>\<open>fetch\<close> of the code passes
  \<^verbatim>\<open>credentials: 'include'\<close>, so this is not a field.  The body is absent, a text
  the caller supplies, or \<^verbatim>\<open>JSON.stringify\<close> of a value.
\<close>

datatype payload = NoBody | Raw string | Stringified json

record request =
  url :: string
  http_method :: "string option"
  headers :: "string \<rightharpoonup> string"
  payload :: payload

text \<open>
  The body of a response is either the text of a JSON document, given by the value it
  denotes (such a text is never empty), or a text that \<^verbatim>\<open>JSON.parse\<close> rejects;
  \<open>NotJson []\<close> is the empty body.
\<close>

datatype body = JsonDoc json | NotJson string

record response =
  status :: nat
  statusText :: string
  content_type :: "string option"
  body :: body
  new_cookie :: "string option"   \<comment> \<open>\<^verbatim>\<open>document.cookie\<close> after a \<^verbatim>\<open>Set-Cookie\<close>, if any\<close>

datatype fetch_result = Rejected | Responded response

text \<open>The \<^verbatim>\<open>fetch\<close> call sites: lines 124, 143 and 70 of the client, and the login.\<close>

datatype site = Original | Retry | CsrfIssue | Login

datatype event =
    Fetch site request
  | Warn string           \<comment> \<open>\<^verbatim>\<open>console.warn\<close>\<close>
  | LogError js_error     \<comment> \<open>\<^verbatim>\<open>console.error\<close>\<close>

text \<open>
  The state of the page outside the store: whether there is a \<^verbatim>\<open>window\<close> (there is
  none while rendering on the server), the two storages, \<^verbatim>\<open>document.cookie\<close>, the
  configured base URL, and what the code has sent and logged so far, oldest first.
\<close>

record world =
  has_window :: bool
  localStorage :: "string \<rightharpoonup> string"
  sessionStorage :: "string \<rightharpoonup> string"
  cookie :: string
  NEXT_PUBLIC_API_URL :: "string option"
  trace :: "event list"

text \<open>
  The backend answers a request knowing everything the page did before.  \<^verbatim>\<open>fetch\<close>
  records the request, gives the answer, and takes over the cookie a response sets.
  Requests are taken to be ones \<^verbatim>\<open>fetch\<close> accepts (it throws before sending on a
  header value that is no valid header text, or on a body with \<^verbatim>\<open>GET\<close>).
\<close>

type_synonym backend = "event list \<Rightarrow> request \<Rightarrow> fetch_result"

definition API_URL :: "world \<Rightarrow> string" where
  "API_URL w =
     (case NEXT_PUBLIC_API_URL w of
        None \<Rightarrow> ''http://localhost:7300''
      | Some u \<Rightarrow> if u \<noteq> [] then u else ''http://localhost:7300'')"

definition fetch :: "backend \<Rightarrow> site \<Rightarrow> request \<Rightarrow> world \<Rightarrow> world \<times> fetch_result" where
  "fetch srv st req w =
     (case srv (trace w) req of
        Rejected \<Rightarrow> (w\<lparr>trace := trace w @ [Fetch st req]\<rparr>, Rejected)
      | Responded r \<Rightarrow>
          (w\<lparr>trace := trace w @ [Fetch st req],
             cookie := (case new_cookie r of None \<Rightarrow> cookie w | Some c \<Rightarrow> c)\<rparr>,
           Responded r))"

definition ok :: "response \<Rightarrow> bool" where
  "ok r = (200 \<le> status r \<and> status r \<le> 299)"

text \<open>\<^verbatim>\<open>response.json()\<close>.\<close>

definition json_of :: "response \<Rightarrow> js_error + json" where
  "json_of r = (case body r of JsonDoc j \<Rightarrow> Inr j | NotJson t \<Rightarrow> Inl SyntaxError)"

text \<open>The object \<^verbatim>\<open>{ detail: `HTTP ${status}: ${statusText}` }\<close>.\<close>

definition synthesized :: "response \<Rightarrow> string" where
  "synthesized r = ''HTTP '' @ show_nat (status r) @ '': '' @ statusText r"

definition http_error :: "response \<Rightarrow> json" where
  "http_error r = JObj [(''detail'', JStr (synthesized r))]"


section \<open>The API client (\<^verbatim>\<open>lib/api/client.ts\<close>)\<close>

definition getAuthToken :: "world \<Rightarrow> string option" where
  "getAuthToken w = (if \<not> has_window w then None else localStorage w ''auth_token'')"

definition setAuthToken :: "string \<Rightarrow> world \<Rightarrow> world" where
  "setAuthToken token w =
     (if \<not> has_window w then w
      else w\<lparr>localStorage := (localStorage w)(''auth_token'' \<mapsto> token)\<rparr>)"

definition clearAuthTokens :: "world \<Rightarrow> world" where
  "clearAuthTokens w =
     (if \<not> has_window w then w
      else w\<lparr>localStorage := (localStorage w)(''auth_token'' := None, ''refresh_token'' := None)\<rparr>)"

text \<open>
  \<^verbatim>\<open>csrfCookie.split('=')[1]\<close>: the second segment, \<^verbatim>\<open>undefined\<close> when there is none.
\<close>

definition second_segment :: "string \<Rightarrow> string option" where
  "second_segment c = (case split_on CHR ''='' c of a # t # rest \<Rightarrow> Some t | _ \<Rightarrow> None)"

definition find_csrf_cookie :: "string \<Rightarrow> string option" where
  "find_csrf_cookie ck =
     find (\<lambda>c. startsWith (trim c) ''csrf_token='') (split_on CHR '';'' ck)"

definition getCsrfToken :: "world \<Rightarrow> world \<times> string option" where
  "getCsrfToken w =
     (if \<not> has_window w then (w, None)
      else if truthy_str (sessionStorage w ''csrf_token'') then (w, sessionStorage w ''csrf_token'')
      else (case find_csrf_cookie (cookie w) of
              Some csrfCookie \<Rightarrow>
                (let token = second_segment csrfCookie
                 in (w\<lparr>sessionStorage := (sessionStorage w)
                          (''csrf_token'' \<mapsto> (case token of Some t \<Rightarrow> t | None \<Rightarrow> ''undefined''))\<rparr>,
                     token))
            | None \<Rightarrow> (w, None)))"

definition log_error :: "js_error \<Rightarrow> world \<Rightarrow> world" where
  "log_error e w = w\<lparr>trace := trace w @ [LogError e]\<rparr>"

definition warn :: "string \<Rightarrow> world \<Rightarrow> world" where
  "warn msg w = w\<lparr>trace := trace w @ [Warn msg]\<rparr>"

definition csrf_request :: "world \<Rightarrow> string \<Rightarrow> request" where
  "csrf_request w token =
     \<lparr>url = API_URL w @ ''/api/v1/csrf-token'', http_method = Some ''GET'',
      headers = [''Authorization'' \<mapsto> ''Bearer '' @ token], payload = NoBody\<rparr>"

text \<open>
  \<^verbatim>\<open>ensureCsrfToken\<close>.  The result is the token as a JavaScript value, \<open>None\<close> for
  \<^verbatim>\<open>null\<close>.  Everything after the bearer token is read runs inside \<^verbatim>\<open>try\<close>: what is
  thrown there is logged and the result is \<^verbatim>\<open>null\<close>.
\<close>

definition ensureCsrfToken :: "backend \<Rightarrow> world \<Rightarrow> world \<times> json option" where
  "ensureCsrfToken srv w =
     (case getCsrfToken w of (w1, existingToken) \<Rightarrow>
        if truthy_str existingToken then (w1, map_option JStr existingToken)
        else (case getAuthToken w1 of
                None \<Rightarrow> (w1, None)
              | Some token \<Rightarrow>
                  if token = [] then (w1, None)
                  else (case fetch srv CsrfIssue (csrf_request w1 token) w1 of
                          (w2, Rejected) \<Rightarrow> (log_error NetworkError w2, None)
                        | (w2, Responded r) \<Rightarrow>
                            if ok r then
                              (case json_of r of
                                 Inl e \<Rightarrow> (log_error e w2, None)
                               | Inr data \<Rightarrow>
                                   (case get_prop data ''csrf_token'' of
                                      Inl e \<Rightarrow> (log_error e w2, None)
                                    | Inr None \<Rightarrow> (w2, None)
                                    | Inr (Some t) \<Rightarrow>
                                        if truthy t then
                                          (w2\<lparr>sessionStorage :=
                                                (sessionStorage w2)(''csrf_token'' \<mapsto> js_string t)\<rparr>,
                                           Some t)
                                        else (w2, None)))
                            else (w2, None))))"

text \<open>
  The \<^verbatim>\<open>RequestInit\<close> fields the client looks at; absent \<^verbatim>\<open>headers\<close> are the empty map.
\<close>

record options =
  opt_method :: "string option"
  opt_headers :: "string \<rightharpoonup> string"
  opt_body :: payload

text \<open>\<^verbatim>\<open>options.method?.toUpperCase() || 'GET'\<close>.\<close>

definition method_of :: "options \<Rightarrow> string" where
  "method_of opts =
     (case opt_method opts of
        None \<Rightarrow> ''GET''
      | Some m \<Rightarrow> if toUpperCase m = [] then ''GET'' else toUpperCase m)"

definition is_mutating :: "string \<Rightarrow> bool" where
  "is_mutating m = (m \<in> set [''POST'', ''PUT'', ''DELETE'', ''PATCH''])"

text \<open>Lines 96 to 105: the content type, the caller's headers, the bearer token.\<close>

definition base_headers :: "options \<Rightarrow> world \<Rightarrow> string \<rightharpoonup> string" where
  "base_headers opts w =
     (let hs = [''Content-Type'' \<mapsto> ''application/json''] ++ opt_headers opts
      in case getAuthToken w of
           None \<Rightarrow> hs
         | Some token \<Rightarrow> if token = [] then hs else hs(''Authorization'' \<mapsto> ''Bearer '' @ token))"

text \<open>Lines 107 to 122: the CSRF header of a state-changing request.\<close>

definition attach_csrf ::
  "backend \<Rightarrow> string \<Rightarrow> string \<Rightarrow> (string \<rightharpoonup> string) \<Rightarrow> world \<Rightarrow> world \<times> (string \<rightharpoonup> string)" where
  "attach_csrf srv endpoint m hs w =
     (if is_mutating m then
        (case getCsrfToken w of (w1, t) \<Rightarrow>
           (case (if \<not> truthy_str t then ensureCsrfToken srv w1 else (w1, map_option JStr t)) of
              (w2, csrfToken) \<Rightarrow>
                (case csrfToken of
                   None \<Rightarrow> (warn endpoint w2, hs)
                 | Some v \<Rightarrow>
                     if truthy v then (w2, hs(''X-CSRF-Token'' \<mapsto> js_string v))
                     else (warn endpoint w2, hs))))
      else (w, hs))"

definition api_call :: "world \<Rightarrow> string \<Rightarrow> options \<Rightarrow> (string \<rightharpoonup> string) \<Rightarrow> request" where
  "api_call w endpoint opts hs =
     \<lparr>url = API_URL w @ endpoint, http_method = opt_method opts, headers = hs, payload = opt_body opts\<rparr>"

text \<open>\<^verbatim>\<open>responseClone.json().catch(() => ({}))\<close>.\<close>

definition error_data :: "response \<Rightarrow> json" where
  "error_data r = (case body r of JsonDoc j \<Rightarrow> j | NotJson t \<Rightarrow> JObj [])"

text \<open>
  \<^verbatim>\<open>detail.includes('CSRF')\<close> for a truthy \<^verbatim>\<open>detail\<close>: a substring test on a string,
  a membership test on an array, and a \<^verbatim>\<open>TypeError\<close> on anything else, which has no
  such method.
\<close>

fun detail_includes_csrf :: "json \<Rightarrow> js_error + bool" where
  "detail_includes_csrf (JStr s) = Inr (includes_str s ''CSRF'')"
| "detail_includes_csrf (JArr xs) = Inr (JStr ''CSRF'' \<in> set xs)"
| "detail_includes_csrf v = Inl TypeError"

text \<open>
  Line 137: \<^verbatim>\<open>response.status === 403 && errorData.detail && errorData.detail.includes('CSRF')\<close>.
\<close>

definition csrf_rejected :: "response \<Rightarrow> js_error + bool" where
  "csrf_rejected r =
     (if status r = 403 then
        (case get_prop (error_data r) ''detail'' of
           Inl e \<Rightarrow> Inl e
         | Inr None \<Rightarrow> Inr False
         | Inr (Some d) \<Rightarrow> if truthy d then detail_includes_csrf d else Inr False)
      else Inr False)"

text \<open>Lines 160 to 164: the error of the first response.\<close>

definition original_error :: "response \<Rightarrow> js_error" where
  "original_error r =
     (case get_prop (error_data r) ''detail'' of
        Inl e \<Rightarrow> e
      | Inr d \<Rightarrow> if truthy_opt d then Thrown (error_data r) else Thrown (http_error r))"

text \<open>Lines 149 to 156: the outcome of the second response.\<close>

definition retry_outcome :: "response \<Rightarrow> js_error + json" where
  "retry_outcome rr =
     (if \<not> ok rr then
        Inl (Thrown (case body rr of JsonDoc j \<Rightarrow> j | NotJson t \<Rightarrow> http_error rr))
      else json_of rr)"

text \<open>Lines 167 to 175: the value of a successful response.\<close>

definition read_success :: "response \<Rightarrow> js_error + json" where
  "read_success r =
     (if (case content_type r of
            None \<Rightarrow> False
          | Some contentType \<Rightarrow> contentType \<noteq> [] \<and> includes_str contentType ''application/json'')
      then json_of r
      else (case body r of
              JsonDoc j \<Rightarrow> Inr j
            | NotJson text \<Rightarrow> if text \<noteq> [] then Inl SyntaxError else Inr (JObj [])))"

text \<open>Lines 96 to 122: the state and the headers when the request is about to be sent.\<close>

definition prepare :: "backend \<Rightarrow> string \<Rightarrow> options \<Rightarrow> world \<Rightarrow> world \<times> (string \<rightharpoonup> string)" where
  "prepare srv endpoint opts w =
     attach_csrf srv endpoint (method_of opts) (base_headers opts w) w"

text \<open>
  Lines 138 to 164, after a response that line 137 takes for a CSRF rejection: ask for
  a token, resend once if there is one and the method is not \<^verbatim>\<open>GET\<close>, else throw the
  error of the first response.
\<close>

definition recover ::
  "backend \<Rightarrow> string \<Rightarrow> options \<Rightarrow> (string \<rightharpoonup> string) \<Rightarrow> response \<Rightarrow> world \<Rightarrow>
   world \<times> (js_error + json)" where
  "recover srv endpoint opts hs r w2 =
     (case ensureCsrfToken srv w2 of (w3, newToken) \<Rightarrow>
        (case newToken of
           None \<Rightarrow> (w3, Inl (original_error r))
         | Some v \<Rightarrow>
             if truthy v \<and> method_of opts \<noteq> ''GET'' then
               (case fetch srv Retry
                       (api_call w3 endpoint opts (hs(''X-CSRF-Token'' \<mapsto> js_string v))) w3 of
                  (w4, Rejected) \<Rightarrow> (w4, Inl NetworkError)
                | (w4, Responded retryResponse) \<Rightarrow> (w4, retry_outcome retryResponse))
             else (w3, Inl (original_error r))))"

text \<open>Lines 130 to 175: what becomes of the first response.\<close>

definition settle ::
  "backend \<Rightarrow> string \<Rightarrow> options \<Rightarrow> (string \<rightharpoonup> string) \<Rightarrow> response \<Rightarrow> world \<Rightarrow>
   world \<times> (js_error + json)" where
  "settle srv endpoint opts hs r w2 =
     (if \<not> ok r then
        (case csrf_rejected r of
           Inl e \<Rightarrow> (w2, Inl e)
         | Inr False \<Rightarrow> (w2, Inl (original_error r))
         | Inr True \<Rightarrow> recover srv endpoint opts hs r w2)
      else (w2, read_success r))"

definition apiRequest :: "backend \<Rightarrow> string \<Rightarrow> options \<Rightarrow> world \<Rightarrow> world \<times> (js_error + json)" where
  "apiRequest srv endpoint opts w =
     (case prepare srv endpoint opts w of (w1, hs) \<Rightarrow>
        (case fetch srv Original (api_call w1 endpoint opts hs) w1 of
           (w2, Rejected) \<Rightarrow> (w2, Inl NetworkError)
         | (w2, Responded r) \<Rightarrow> settle srv endpoint opts hs r w2))"

text \<open>
  The request that line 124 sends, and the answer of the backend to it.
\<close>

definition original_request :: "backend \<Rightarrow> string \<Rightarrow> options \<Rightarrow> world \<Rightarrow> request" where
  "original_request srv endpoint opts w =
     (case prepare srv endpoint opts w of (w1, hs) \<Rightarrow> api_call w1 endpoint opts hs)"

definition first_response :: "backend \<Rightarrow> string \<Rightarrow> options \<Rightarrow> world \<Rightarrow> fetch_result" where
  "first_response srv endpoint opts w =
     srv (trace (fst (prepare srv endpoint opts w))) (original_request srv endpoint opts w)"

text \<open>The page when the first response has arrived.\<close>

definition after_first :: "backend \<Rightarrow> string \<Rightarrow> options \<Rightarrow> world \<Rightarrow> world" where
  "after_first srv endpoint opts w =
     fst (fetch srv Original (original_request srv endpoint opts w) (fst (prepare srv endpoint opts w)))"

text \<open>The \<^verbatim>\<open>detail\<close> of the object a call threw, if it threw an object that has one.\<close>

definition thrown_detail :: "js_error + json \<Rightarrow> json option" where
  "thrown_detail res = (case res of Inl (Thrown j) \<Rightarrow> field j ''detail'' | _ \<Rightarrow> None)"

text \<open>
  The value \<^verbatim>\<open>getCsrfToken\<close> parses from the cookie string, and the token lines 78 to 83
  take from the answer of the token-issuing endpoint.
\<close>

definition cookie_token :: "string \<Rightarrow> string option" where
  "cookie_token ck = (case find_csrf_cookie ck of None \<Rightarrow> None | Some c \<Rightarrow> second_segment c)"

definition issued_token :: "fetch_result \<Rightarrow> json option" where
  "issued_token res =
     (case res of
        Rejected \<Rightarrow> None
      | Responded r \<Rightarrow>
          if ok r then
            (case body r of
               NotJson t \<Rightarrow> None
             | JsonDoc data \<Rightarrow>
                 (case field data ''csrf_token'' of
                    None \<Rightarrow> None
                  | Some t \<Rightarrow> if truthy t then Some t else None))
          else None)"

text \<open>
  What a call added to the trace, the requests a call site sent, their headers of a
  given name (\<^verbatim>\<open>X-CSRF-Token\<close> above all), and the warnings.
\<close>

definition since :: "world \<Rightarrow> world \<Rightarrow> event list" where
  "since w w' = drop (length (trace w)) (trace w')"

fun fetched :: "site \<Rightarrow> event list \<Rightarrow> request list" where
  "fetched st [] = []"
| "fetched st (Fetch st' req # evs) = (if st' = st then req # fetched st evs else fetched st evs)"
| "fetched st (Warn msg # evs) = fetched st evs"
| "fetched st (LogError e # evs) = fetched st evs"

definition sent_header :: "site \<Rightarrow> string \<Rightarrow> event list \<Rightarrow> string option list" where
  "sent_header st k evs = map (\<lambda>req. headers req k) (fetched st evs)"

definition sent_csrf :: "site \<Rightarrow> event list \<Rightarrow> string option list" where
  "sent_csrf st evs = map (\<lambda>req. headers req ''X-CSRF-Token'') (fetched st evs)"

fun warnings :: "event list \<Rightarrow> string list" where
  "warnings [] = []"
| "warnings (Warn msg # evs) = msg # warnings evs"
| "warnings (Fetch st req # evs) = warnings evs"
| "warnings (LogError e # evs) = warnings evs"

section \<open>The authentication API (\<^verbatim>\<open>lib/api/auth.ts\<close>)\<close>

definition login_request :: "world \<Rightarrow> string \<Rightarrow> string \<Rightarrow> request" where
  "login_request w email password =
     \<lparr>url = API_URL w @ ''/api/v1/auth/login'', http_method = Some ''POST'',
      headers = [''Content-Type'' \<mapsto> ''application/json''],
      payload = Stringified (JObj [(''email'', JStr email), (''password'', JStr password)])\<rparr>"

text \<open>
  \<^verbatim>\<open>if (data.key) storage.setItem(key, data.key)\<close>, which \<^verbatim>\<open>login\<close> does without asking
  for a window first.
\<close>

definition store_if_truthy ::
  "bool \<Rightarrow> string \<Rightarrow> json option \<Rightarrow> world \<Rightarrow> js_error + world" where
  "store_if_truthy durable key v w =
     (case v of
        None \<Rightarrow> Inr w
      | Some t \<Rightarrow>
          if \<not> truthy t then Inr w
          else if \<not> has_window w then Inl ReferenceError
          else if durable then Inr (w\<lparr>localStorage := (localStorage w)(key \<mapsto> js_string t)\<rparr>)
          else Inr (w\<lparr>sessionStorage := (sessionStorage w)(key \<mapsto> js_string t)\<rparr>))"

definition login :: "backend \<Rightarrow> string \<Rightarrow> string \<Rightarrow> world \<Rightarrow> world \<times> (js_error + json)" where
  "login srv email password w =
     (case fetch srv Login (login_request w email password) w of
        (w1, Rejected) \<Rightarrow> (w1, Inl NetworkError)
      | (w1, Responded r) \<Rightarrow>
          if \<not> ok r then
            (w1, Inl (Thrown (case body r of JsonDoc j \<Rightarrow> j | NotJson t \<Rightarrow> http_error r)))
          else
            (case json_of r of
               Inl e \<Rightarrow> (w1, Inl e)
             | Inr data \<Rightarrow>
                 (case get_prop data ''access_token'' of
                    Inl e \<Rightarrow> (w1, Inl e)
                  | Inr access_token \<Rightarrow>
                      (let w2 = setAuthToken (js_string_opt access_token) w1
                       in case store_if_truthy True ''refresh_token''
                                 (field data ''refresh_token'') w2 of
                            Inl e \<Rightarrow> (w2, Inl e)
                          | Inr w3 \<Rightarrow>
                              (case store_if_truthy False ''csrf_token''
                                      (field data ''csrf_token'') w3 of
                                 Inl e \<Rightarrow> (w3, Inl e)
                               | Inr w4 \<Rightarrow> (w4, Inr data))))))"

definition getCurrentUser :: "backend \<Rightarrow> world \<Rightarrow> world \<times> (js_error + json)" where
  "getCurrentUser srv w =
     apiRequest srv ''/api/v1/users/me'' \<lparr>opt_method = None, opt_headers = Map.empty, opt_body = NoBody\<rparr> w"

definition logout :: "world \<Rightarrow> world" where
  "logout w = clearAuthTokens w"

section \<open>The authentication store (\<^verbatim>\<open>store/authStore.ts\<close>)\<close>

text \<open>
  The fields of the store.  A field holds a JavaScript value: \<open>Some JNull\<close> is
  \<^verbatim>\<open>null\<close>, \<open>None\<close> is \<^verbatim>\<open>undefined\<close>.
\<close>

record AuthState =
  user :: "json option"
  isAuthenticated :: bool
  isLoading :: bool
  error :: "json option"

definition initial_AuthState :: AuthState where
  "initial_AuthState =
     \<lparr>user = Some JNull, isAuthenticated = False, isLoading = False, error = Some JNull\<rparr>"

text \<open>\<^verbatim>\<open>error?.detail || 'Login failed'\<close>.\<close>

definition errorMessage :: "js_error \<Rightarrow> json" where
  "errorMessage e =
     (case e of
        Thrown (JObj kvs) \<Rightarrow>
          (case map_of kvs ''detail'' of
             None \<Rightarrow> JStr ''Login failed''
           | Some d \<Rightarrow> if truthy d then d else JStr ''Login failed'')
      | _ \<Rightarrow> JStr ''Login failed'')"

definition store_login ::
  "backend \<Rightarrow> string \<Rightarrow> string \<Rightarrow> world \<times> AuthState \<Rightarrow> (world \<times> AuthState) \<times> (js_error + unit)" where
  "store_login srv email password ws =
     (case ws of (w, st) \<Rightarrow>
        (let st1 = st\<lparr>isLoading := True, error := Some JNull\<rparr>
         in case login srv email password w of
              (w1, Inl e) \<Rightarrow>
                ((w1, st1\<lparr>error := Some (errorMessage e), isLoading := False\<rparr>), Inl e)
            | (w1, Inr response) \<Rightarrow>
                (case get_prop response ''user'' of
                   Inl e \<Rightarrow>
                     ((w1, st1\<lparr>error := Some (errorMessage e), isLoading := False\<rparr>), Inl e)
                 | Inr u \<Rightarrow>
                     ((w1, st1\<lparr>user := u, isAuthenticated := True, isLoading := False\<rparr>),
                      Inr ()))))"

definition store_logout :: "world \<times> AuthState \<Rightarrow> world \<times> AuthState" where
  "store_logout ws =
     (case ws of (w, st) \<Rightarrow>
        (logout w, st\<lparr>user := Some JNull, isAuthenticated := False, error := Some JNull\<rparr>))"

text \<open>The two branches of \<^verbatim>\<open>fetchUser\<close> that clear the session.\<close>

definition clear_auth :: "world \<times> AuthState \<Rightarrow> world \<times> AuthState" where
  "clear_auth ws =
     (case ws of (w, st) \<Rightarrow> (logout w, st\<lparr>user := Some JNull, isAuthenticated := False\<rparr>))"

definition fetchUser :: "backend \<Rightarrow> world \<times> AuthState \<Rightarrow> world \<times> AuthState" where
  "fetchUser srv ws =
     (case ws of (w, st) \<Rightarrow>
        (case getCurrentUser srv w of
           (w1, Inl e) \<Rightarrow> clear_auth (w1, st)
         | (w1, Inr u) \<Rightarrow>
             (case get_prop u ''is_admin'' of
                Inl e \<Rightarrow> clear_auth (w1, st)
              | Inr is_admin \<Rightarrow>
                  if truthy_opt is_admin
                  then (w1, st\<lparr>user := Some u, isAuthenticated := True\<rparr>)
                  else clear_auth (w1, st))))"

definition clearError :: "world \<times> AuthState \<Rightarrow> world \<times> AuthState" where
  "clearError ws = (case ws of (w, st) \<Rightarrow> (w, st\<lparr>error := Some JNull\<rparr>))"

section \<open>The users page (\<^verbatim>\<open>AdminUsersPage\<close>)\<close>

text \<open>
  \<^verbatim>\<open>page\<close> and \<^verbatim>\<open>total\<close> (here \<open>tot\<close>) are counts; \<^verbatim>\<open>Math.ceil(total / limit)\<close> is taken over the
  reals, which agrees with the double-precision quotient for the counts a page can show.
  The pagination bar is rendered only when \<^verbatim>\<open>total > 0\<close>; \<open>next_button\<close> is the
  \<^verbatim>\<open>disabled\<close> attribute of its Next button, \<open>None\<close> when there is no bar.
\<close>

definition limit :: int where
  "limit = 20"

definition totalPages :: "int \<Rightarrow> int" where
  "totalPages tot = \<lceil>real_of_int tot / real_of_int limit\<rceil>"

definition next_button :: "int \<Rightarrow> int \<Rightarrow> bool option" where
  "next_button page tot = (if tot > 0 then Some (page \<ge> totalPages tot) else None)"

definition fetchUsers_skip :: "int \<Rightarrow> int" where
  "fetchUsers_skip page = (page - 1) * limit"


section \<open>Concrete pages and backends\<close>

text \<open>A tab that has just been opened, and a response that carries a JSON document.\<close>

definition fresh_tab :: world where
  "fresh_tab =
     \<lparr>has_window = True, localStorage = Map.empty, sessionStorage = Map.empty, cookie = [],
      NEXT_PUBLIC_API_URL = None, trace = []\<rparr>"

definition json_response :: "nat \<Rightarrow> string \<Rightarrow> json \<Rightarrow> response" where
  "json_response st txt j =
     \<lparr>status = st, statusText = txt, content_type = Some ''application/json'',
      body = JsonDoc j, new_cookie = None\<rparr>"

text \<open>A backend that accepts every login and answers with a user who is no administrator.\<close>

definition non_admin_user :: json where
  "non_admin_user =
     JObj [(''id'', JStr ''u1''), (''email'', JStr ''user@example.com''),
           (''full_name'', JStr ''Plain User''), (''is_admin'', JBool False)]"

definition non_admin_backend :: backend where
  "non_admin_backend tr req =
     Responded (json_response 200 ''OK''
       (JObj [(''access_token'', JStr ''access''), (''refresh_token'', JStr ''refresh''),
              (''token_type'', JStr ''bearer''), (''csrf_token'', JStr ''csrf''),
              (''user'', non_admin_user)]))"

text \<open>
  A tab whose user has signed in (with some unrelated entry in the durable storage), the
  same tab before any CSRF token was cached, a store that shows an administrator, and the
  options of a \<^verbatim>\<open>GET\<close> and of a \<^verbatim>\<open>POST\<close>.
\<close>

definition signed_in_tab :: world where
  "signed_in_tab =
     fresh_tab\<lparr>localStorage := [''auth_token'' \<mapsto> ''access'', ''refresh_token'' \<mapsto> ''refresh'',
                                  ''theme'' \<mapsto> ''dark''],
                sessionStorage := [''csrf_token'' \<mapsto> ''csrf'']\<rparr>"

definition signed_in_no_csrf :: world where
  "signed_in_no_csrf = fresh_tab\<lparr>localStorage := [''auth_token'' \<mapsto> ''access'']\<rparr>"

definition admin_store :: AuthState where
  "admin_store =
     \<lparr>user = Some (JObj [(''id'', JStr ''a1''), (''email'', JStr ''admin@example.com''),
                         (''full_name'', JStr ''Admin''), (''is_admin'', JBool True)]),
      isAuthenticated = True, isLoading = False, error = Some JNull\<rparr>"

definition get_options :: options where
  "get_options = \<lparr>opt_method = None, opt_headers = Map.empty, opt_body = NoBody\<rparr>"

definition post_options :: options where
  "post_options = \<lparr>opt_method = Some ''post'', opt_headers = Map.empty, opt_body = Raw ''{}''\<rparr>"

text \<open>
  Backends: one that is unreachable, one that answers everything with the user who is no
  administrator, and one that answers 200 except at the token-issuing endpoint, where it
  answers 500.
\<close>

definition offline_backend :: backend where
  "offline_backend tr req = Rejected"

definition non_admin_me_backend :: backend where
  "non_admin_me_backend tr req = Responded (json_response 200 ''OK'' non_admin_user)"

definition no_token_backend :: backend where
  "no_token_backend tr req =
     (if url req = ''http://localhost:7300/api/v1/csrf-token''
      then Responded (json_response 500 ''Internal Server Error'' (JObj []))
      else Responded (json_response 200 ''OK'' (JObj [])))"

text \<open>
  More backends.  One answers 200 with the plain text \<^verbatim>\<open>OK\<close>; one answers 200 with the
  content type of JSON and an empty body; one answers 400 with an empty \<^verbatim>\<open>detail\<close>; one
  answers 404 with a message; one answers 403 with a message that is not about CSRF.
  The last issues the token \<^verbatim>\<open>fresh\<close> at the token-issuing
  endpoint and rejects every other request with a CSRF error, whatever it carries.
\<close>

definition plain_text_backend :: backend where
  "plain_text_backend tr req =
     Responded \<lparr>status = 200, statusText = ''OK'', content_type = Some ''text/plain'',
                body = NotJson ''OK'', new_cookie = None\<rparr>"

definition empty_json_backend :: backend where
  "empty_json_backend tr req =
     Responded \<lparr>status = 200, statusText = ''OK'', content_type = Some ''application/json'',
                body = NotJson [], new_cookie = None\<rparr>"

definition empty_detail_backend :: backend where
  "empty_detail_backend tr req =
     Responded (json_response 400 ''Bad Request'' (JObj [(''detail'', JStr [])]))"

definition not_found_backend :: backend where
  "not_found_backend tr req =
     Responded (json_response 404 ''Not Found'' (JObj [(''detail'', JStr ''User not found'')]))"

definition forbidden_backend :: backend where
  "forbidden_backend tr req =
     Responded (json_response 403 ''Forbidden'' (JObj [(''detail'', JStr ''Admin access required'')]))"

definition csrf_strict_backend :: backend where
  "csrf_strict_backend tr req =
     (if url req = ''http://localhost:7300/api/v1/csrf-token''
      then Responded (json_response 200 ''OK'' (JObj [(''csrf_token'', JStr ''fresh'')]))
      else Responded (json_response 403 ''Forbidden''
             (JObj [(''detail'', JStr ''CSRF token missing or invalid'')])))"

text \<open>
  Two signed-in tabs with no cached CSRF token and a \<^verbatim>\<open>csrf_token\<close> cookie: one whose
  value ends with the padding of a base64 text, one whose value starts with \<^verbatim>\<open>=\<close>.
\<close>

definition padded_cookie_tab :: world where
  "padded_cookie_tab = signed_in_no_csrf\<lparr>cookie := ''theme=dark; csrf_token=abc123==''\<rparr>"

definition leading_eq_tab :: world where
  "leading_eq_tab = signed_in_no_csrf\<lparr>cookie := ''csrf_token==abc''\<rparr>"

text \<open>
  A tab whose cookie string starts with a no-break space and holds two \<^verbatim>\<open>csrf_token\<close>
  cookies.
\<close>

definition nbsp_cookie_tab :: world where
  "nbsp_cookie_tab =
     signed_in_no_csrf\<lparr>cookie := CHR 0xA0 # ''csrf_token=first=1; csrf_token=second=x''\<rparr>"

text \<open>
  A backend whose token-issuing endpoint answers 500 until the page has sent its request,
  and issues the token \<^verbatim>\<open>fresh\<close> from then on.  It rejects every other request with a
  CSRF error, unless \<open>lenient\<close> is set and the request carries the token \<^verbatim>\<open>fresh\<close>.
\<close>

definition late_token_backend :: "bool \<Rightarrow> backend" where
  "late_token_backend lenient tr req =
     (if url req = ''http://localhost:7300/api/v1/csrf-token'' then
        (if fetched Original tr = []
         then Responded (json_response 500 ''Internal Server Error'' (JObj []))
         else Responded (json_response 200 ''OK'' (JObj [(''csrf_token'', JStr ''fresh'')])))
      else if lenient \<and> headers req ''X-CSRF-Token'' = Some ''fresh''
      then Responded (json_response 200 ''OK'' (JObj [(''message'', JStr ''User banned'')]))
      else Responded (json_response 403 ''Forbidden''
             (JObj [(''detail'', JStr ''CSRF token missing or invalid'')])))"

section \<open>Facts about the client\<close>

lemma split_on_not_Nil [simp]: "split_on c s \<noteq> []"
  by (induction s) (auto split: list.splits)

lemma split_on_no_sep: "c \<notin> set a \<Longrightarrow> split_on c a = [a]"
  by (induction a) auto

lemma split_on_prefix: "c \<notin> set a \<Longrightarrow> split_on c (a @ c # s) = a # split_on c s"
  by (induction a) auto

lemma split_on_second: "c \<in> set s \<Longrightarrow> \<exists>a t rest. split_on c s = a # t # rest"
proof -
  assume "c \<in> set s"
  then obtain a b where s: "s = a @ c # b" and a: "c \<notin> set a"
    by (meson split_list_first)
  obtain t rest where "split_on c b = t # rest"
    by (cases "split_on c b") auto
  with s a show ?thesis
    by (simp add: split_on_prefix)
qed

lemma startsWith_append: "startsWith s p \<longleftrightarrow> (\<exists>r. s = p @ r)"
  unfolding startsWith_def
  by (metis append_eq_conv_conj append_take_drop_id)

lemma set_trim: "set (trim c) \<subseteq> set c"
  unfolding trim_def
  by (metis set_dropWhileD set_rev subsetI)

lemma found_cookie_has_eq:
  assumes "find_csrf_cookie ck = Some c"
  shows "CHR ''='' \<in> set c"
proof -
  from assms have "startsWith (trim c) ''csrf_token=''"
    unfolding find_csrf_cookie_def by (auto simp: find_Some_iff)
  then obtain r where "trim c = ''csrf_token='' @ r"
    unfolding startsWith_append by blast
  then have "CHR ''='' \<in> set (trim c)" by simp
  then show ?thesis using set_trim by blast
qed

lemma found_cookie_second:
  assumes "find_csrf_cookie ck = Some c"
  shows "\<exists>t. second_segment c = Some t"
proof -
  from found_cookie_has_eq [OF assms] obtain a t rest
    where "split_on CHR ''='' c = a # t # rest"
    using split_on_second by blast
  then show ?thesis by (simp add: second_segment_def)
qed

lemma getCsrfToken_frame [simp]:
  "trace (fst (getCsrfToken w)) = trace w"
  "localStorage (fst (getCsrfToken w)) = localStorage w"
  "cookie (fst (getCsrfToken w)) = cookie w"
  "has_window (fst (getCsrfToken w)) = has_window w"
  "NEXT_PUBLIC_API_URL (fst (getCsrfToken w)) = NEXT_PUBLIC_API_URL w"
  by (simp_all add: getCsrfToken_def Let_def split: option.splits)

lemma getCsrfToken_again:
  assumes "\<not> truthy_str (snd (getCsrfToken w))"
  shows "getCsrfToken (fst (getCsrfToken w)) = getCsrfToken w"
proof (cases "has_window w \<and> \<not> truthy_str (sessionStorage w ''csrf_token'')")
  case False
  then show ?thesis by (auto simp: getCsrfToken_def)
next
  case True
  show ?thesis
  proof (cases "find_csrf_cookie (cookie w)")
    case None
    with True show ?thesis by (simp add: getCsrfToken_def)
  next
    case (Some c)
    then obtain t where t: "second_segment c = Some t"
      using found_cookie_second by blast
    with True Some assms have "t = []"
      by (simp add: getCsrfToken_def truthy_str_def Let_def)
    with True Some t show ?thesis
      by (simp add: getCsrfToken_def truthy_str_def Let_def)
  qed
qed


lemma fetch_frame [simp]:
  "trace (fst (fetch srv st req w)) = trace w @ [Fetch st req]"
  "localStorage (fst (fetch srv st req w)) = localStorage w"
  "sessionStorage (fst (fetch srv st req w)) = sessionStorage w"
  "has_window (fst (fetch srv st req w)) = has_window w"
  "NEXT_PUBLIC_API_URL (fst (fetch srv st req w)) = NEXT_PUBLIC_API_URL w"
  "snd (fetch srv st req w) = srv (trace w) req"
  by (simp_all add: fetch_def split: fetch_result.splits)

lemma fetched_append [simp]: "fetched st (xs @ ys) = fetched st xs @ fetched st ys"
  by (induction st xs rule: fetched.induct) auto

lemma warnings_append [simp]: "warnings (xs @ ys) = warnings xs @ warnings ys"
  by (induction xs rule: warnings.induct) auto

lemma since_append: "trace w' = trace w @ evs \<Longrightarrow> since w w' = evs"
  by (simp add: since_def)

lemma API_URL_cong: "NEXT_PUBLIC_API_URL w' = NEXT_PUBLIC_API_URL w \<Longrightarrow> API_URL w' = API_URL w"
  by (simp add: API_URL_def)

lemma ensureCsrfToken_frame [simp]:
  "localStorage (fst (ensureCsrfToken srv w)) = localStorage w"
  "has_window (fst (ensureCsrfToken srv w)) = has_window w"
  "NEXT_PUBLIC_API_URL (fst (ensureCsrfToken srv w)) = NEXT_PUBLIC_API_URL w"
  by (auto simp: ensureCsrfToken_def log_error_def split_beta
      split: option.splits fetch_result.splits sum.splits prod.splits)

lemma ensureCsrfToken_truthy: "snd (ensureCsrfToken srv w) = Some v \<Longrightarrow> truthy v"
  by (auto simp: ensureCsrfToken_def truthy_str_def split_beta
      split: option.splits fetch_result.splits sum.splits prod.splits if_splits)

lemma ensureCsrfToken_trace:
  "\<exists>evs. trace (fst (ensureCsrfToken srv w)) = trace w @ evs \<and>
         fetched Original evs = [] \<and> fetched Retry evs = [] \<and> warnings evs = [] \<and>
         length (fetched CsrfIssue evs) \<le> 1"
  by (auto simp: ensureCsrfToken_def log_error_def split_beta
      split: option.splits fetch_result.splits sum.splits prod.splits)


lemma attach_csrf_frame [simp]:
  "localStorage (fst (attach_csrf srv endpoint m hs w)) = localStorage w"
  "has_window (fst (attach_csrf srv endpoint m hs w)) = has_window w"
  "NEXT_PUBLIC_API_URL (fst (attach_csrf srv endpoint m hs w)) = NEXT_PUBLIC_API_URL w"
  by (auto simp: attach_csrf_def warn_def split_beta split: option.splits)

lemma attach_csrf_trace:
  "\<exists>evs. trace (fst (attach_csrf srv endpoint m hs w)) = trace w @ evs \<and>
         fetched Original evs = [] \<and> fetched Retry evs = [] \<and>
         length (fetched CsrfIssue evs) \<le> 1"
proof -
  obtain evs where e: "trace (fst (ensureCsrfToken srv (fst (getCsrfToken w)))) = trace w @ evs"
    "fetched Original evs = []" "fetched Retry evs = []" "length (fetched CsrfIssue evs) \<le> 1"
    using ensureCsrfToken_trace [of srv "fst (getCsrfToken w)"] by auto
  show ?thesis
    using e by (auto simp: attach_csrf_def warn_def split_beta split: option.splits)
qed

lemma prepare_frame [simp]:
  "localStorage (fst (prepare srv endpoint opts w)) = localStorage w"
  "has_window (fst (prepare srv endpoint opts w)) = has_window w"
  "NEXT_PUBLIC_API_URL (fst (prepare srv endpoint opts w)) = NEXT_PUBLIC_API_URL w"
  by (simp_all add: prepare_def)

lemma recover_frame [simp]:
  "localStorage (fst (recover srv endpoint opts hs r w)) = localStorage w"
  "has_window (fst (recover srv endpoint opts hs r w)) = has_window w"
  by (auto simp: recover_def split_beta split: option.splits fetch_result.splits)

lemma recover_trace:
  "\<exists>evs. trace (fst (recover srv endpoint opts hs r w)) = trace w @ evs \<and>
         fetched Original evs = [] \<and> length (fetched Retry evs) \<le> 1"
proof -
  obtain evs where e: "trace (fst (ensureCsrfToken srv w)) = trace w @ evs"
    "fetched Original evs = []" "fetched Retry evs = []"
    using ensureCsrfToken_trace [of srv w] by auto
  show ?thesis
    using e by (auto simp: recover_def split_beta split: option.splits fetch_result.splits)
qed

lemma settle_frame [simp]:
  "localStorage (fst (settle srv endpoint opts hs r w)) = localStorage w"
  "has_window (fst (settle srv endpoint opts hs r w)) = has_window w"
  by (auto simp: settle_def split: sum.splits bool.splits)

lemma settle_trace:
  "\<exists>evs. trace (fst (settle srv endpoint opts hs r w)) = trace w @ evs \<and>
         fetched Original evs = [] \<and> length (fetched Retry evs) \<le> 1"
  using recover_trace [of srv endpoint opts hs r w]
  by (auto simp: settle_def split: sum.splits bool.splits)

lemma apiRequest_frame [simp]:
  "localStorage (fst (apiRequest srv endpoint opts w)) = localStorage w"
  "has_window (fst (apiRequest srv endpoint opts w)) = has_window w"
  by (auto simp: apiRequest_def split_beta split: fetch_result.splits prod.splits)

lemma apiRequest_trace:
  "\<exists>evs1 evs2.
     trace (fst (prepare srv endpoint opts w)) = trace w @ evs1 \<and>
     trace (fst (apiRequest srv endpoint opts w)) =
       trace w @ evs1 @ Fetch Original (original_request srv endpoint opts w) # evs2 \<and>
     fetched Original evs1 = [] \<and> fetched Retry evs1 = [] \<and>
     fetched Original evs2 = [] \<and> length (fetched Retry evs2) \<le> 1"
proof -
  obtain w1 hs where p: "prepare srv endpoint opts w = (w1, hs)"
    by (cases "prepare srv endpoint opts w")
  obtain evs1 where e1: "trace w1 = trace w @ evs1" "fetched Original evs1 = []"
    "fetched Retry evs1 = []"
    using attach_csrf_trace [of srv endpoint "method_of opts" "base_headers opts w" w] p
    by (auto simp: prepare_def)
  let ?req = "api_call w1 endpoint opts hs"
  let ?w2 = "fst (fetch srv Original ?req w1)"
  show ?thesis
  proof (cases "srv (trace w1) ?req")
    case Rejected
    then have "trace (fst (apiRequest srv endpoint opts w)) = trace w1 @ [Fetch Original ?req]"
      using p by (simp add: apiRequest_def fetch_def)
    with p e1 show ?thesis
      by (simp add: original_request_def)
  next
    case (Responded r)
    obtain evs2 where e2: "trace (fst (settle srv endpoint opts hs r ?w2)) = trace ?w2 @ evs2"
      "fetched Original evs2 = []" "length (fetched Retry evs2) \<le> 1"
      using settle_trace [of srv endpoint opts hs r ?w2] by auto
    have "fst (apiRequest srv endpoint opts w) = fst (settle srv endpoint opts hs r ?w2)"
      using p Responded by (simp add: apiRequest_def fetch_def)
    with p e1 e2 show ?thesis
      by (simp add: original_request_def)
  qed
qed


lemma ensureCsrfToken_after_get:
  assumes "\<not> truthy_str (snd (getCsrfToken w))"
  shows "ensureCsrfToken srv (fst (getCsrfToken w)) = ensureCsrfToken srv w"
  using getCsrfToken_again [OF assms]
  by (simp add: ensureCsrfToken_def split_beta)

lemma ensureCsrfToken_cached:
  assumes "truthy_str (snd (getCsrfToken w))"
  shows "ensureCsrfToken srv w = (fst (getCsrfToken w), map_option JStr (snd (getCsrfToken w)))"
  using assms by (simp add: ensureCsrfToken_def split_beta)

lemma attach_csrf_ensure:
  assumes "is_mutating m"
  shows "attach_csrf srv endpoint m hs w =
           (case ensureCsrfToken srv w of
              (w2, None) \<Rightarrow> (warn endpoint w2, hs)
            | (w2, Some v) \<Rightarrow> (w2, hs(''X-CSRF-Token'' \<mapsto> js_string v)))"
proof (cases "truthy_str (snd (getCsrfToken w))")
  case True
  then obtain s where s: "snd (getCsrfToken w) = Some s" "s \<noteq> []"
    by (auto simp: truthy_str_def split: option.splits)
  with assms True show ?thesis
    by (simp add: attach_csrf_def ensureCsrfToken_cached split_beta)
next
  case False
  have "truthy v" if "snd (ensureCsrfToken srv w) = Some v" for v
    using that by (rule ensureCsrfToken_truthy)
  with assms False show ?thesis
    by (auto simp: attach_csrf_def ensureCsrfToken_after_get split_beta split: option.splits)
qed

lemma api_call_world:
  "NEXT_PUBLIC_API_URL w' = NEXT_PUBLIC_API_URL w \<Longrightarrow>
   api_call w' endpoint opts hs = api_call w endpoint opts hs"
  by (simp add: api_call_def API_URL_def)

lemma original_request_eq:
  "original_request srv endpoint opts w =
     api_call w endpoint opts (snd (prepare srv endpoint opts w))"
  by (simp add: original_request_def split_beta api_call_world [of "fst (prepare srv endpoint opts w)" w])

lemma apiRequest_sent_original:
  "fetched Original (since w (fst (apiRequest srv endpoint opts w))) =
     [original_request srv endpoint opts w]"
  using apiRequest_trace [of srv endpoint opts w]
  by (auto simp: since_append)

lemma apiRequest_sent_retry:
  "length (fetched Retry (since w (fst (apiRequest srv endpoint opts w)))) \<le> 1"
  using apiRequest_trace [of srv endpoint opts w]
  by (auto simp: since_append)

lemma base_headers_csrf: "base_headers opts w ''X-CSRF-Token'' = opt_headers opts ''X-CSRF-Token''"
  by (simp add: base_headers_def map_add_def Let_def split: option.splits)

lemma apiRequest_unfold:
  "apiRequest srv endpoint opts w =
     (case first_response srv endpoint opts w of
        Rejected \<Rightarrow> (after_first srv endpoint opts w, Inl NetworkError)
      | Responded r \<Rightarrow>
          settle srv endpoint opts (snd (prepare srv endpoint opts w)) r
            (after_first srv endpoint opts w))"
  by (cases "prepare srv endpoint opts w")
     (simp add: apiRequest_def fetch_def first_response_def after_first_def
       original_request_def split: fetch_result.splits)

lemma after_first_trace:
  "trace (after_first srv endpoint opts w) =
     trace (fst (prepare srv endpoint opts w)) @ [Fetch Original (original_request srv endpoint opts w)]"
  by (simp add: after_first_def)

lemma prepare_trace:
  "\<exists>evs. trace (fst (prepare srv endpoint opts w)) = trace w @ evs \<and>
         fetched Original evs = [] \<and> fetched Retry evs = []"
  using attach_csrf_trace [of srv endpoint "method_of opts" "base_headers opts w" w]
  by (auto simp: prepare_def)

lemma original_error_detail:
  assumes "body r \<noteq> JsonDoc JNull"
  shows "original_error r =
           Thrown (if truthy_opt (field (error_data r) ''detail'') then error_data r else http_error r)"
proof -
  have "error_data r \<noteq> JNull"
    using assms by (auto simp: error_data_def split: body.splits)
  then show ?thesis
    by (cases "error_data r") (simp_all add: original_error_def field_def)
qed

lemma csrf_rejected_string:
  assumes "status r = 403" "body r = JsonDoc j" "field j ''detail'' = Some (JStr d)"
    "includes_str d ''CSRF''"
  shows "csrf_rejected r = Inr True" "\<not> ok r"
proof -
  have g: "get_prop j ''detail'' = Inr (Some (JStr d))"
    using assms(3) by (cases "get_prop j ''detail''") (simp_all add: field_def)
  have "d \<noteq> []"
    using assms(4) by (cases d) simp_all
  with g assms show "csrf_rejected r = Inr True"
    by (simp add: csrf_rejected_def error_data_def)
  show "\<not> ok r"
    using assms(1) by (simp add: ok_def)
qed

lemma recover_retry:
  assumes "snd (ensureCsrfToken srv w2) = Some v" "method_of opts \<noteq> ''GET''"
  shows "recover srv endpoint opts hs r w2 =
           (fst (fetch srv Retry (api_call w2 endpoint opts (hs(''X-CSRF-Token'' \<mapsto> js_string v)))
                  (fst (ensureCsrfToken srv w2))),
            case srv (trace (fst (ensureCsrfToken srv w2)))
                   (api_call w2 endpoint opts (hs(''X-CSRF-Token'' \<mapsto> js_string v))) of
              Rejected \<Rightarrow> Inl NetworkError
            | Responded rr \<Rightarrow> retry_outcome rr)"
proof -
  obtain w3 where e: "ensureCsrfToken srv w2 = (w3, Some v)"
    using assms(1) by (cases "ensureCsrfToken srv w2") auto
  have t: "truthy v"
    using assms(1) by (rule ensureCsrfToken_truthy)
  have u: "NEXT_PUBLIC_API_URL w3 = NEXT_PUBLIC_API_URL w2"
    using ensureCsrfToken_frame(3) [of srv w2] e by simp
  show ?thesis
    using e t assms(2) api_call_world [OF u]
    by (simp add: recover_def fetch_def split: fetch_result.splits)
qed

lemma getCsrfToken_cached:
  assumes "has_window w" "sessionStorage w ''csrf_token'' = Some s" "s \<noteq> []"
  shows "getCsrfToken w = (w, Some s)"
  using assms by (simp add: getCsrfToken_def truthy_str_def)

lemma getCsrfToken_from_cookie:
  assumes "has_window w" "\<not> truthy_str (sessionStorage w ''csrf_token'')"
    "cookie_token (cookie w) = Some t"
  shows "getCsrfToken w = (w\<lparr>sessionStorage := (sessionStorage w)(''csrf_token'' \<mapsto> t)\<rparr>, Some t)"
  using assms
  by (auto simp: getCsrfToken_def cookie_token_def Let_def split: option.splits)

lemma getCsrfToken_snd:
  assumes "has_window w" "\<not> truthy_str (sessionStorage w ''csrf_token'')"
  shows "snd (getCsrfToken w) = cookie_token (cookie w)"
  using assms
  by (auto simp: getCsrfToken_def cookie_token_def Let_def split: option.splits)

lemma ensureCsrfToken_no_bearer:
  assumes "\<not> truthy_str (snd (getCsrfToken w))" "\<not> truthy_str (localStorage w ''auth_token'')"
  shows "ensureCsrfToken srv w = (fst (getCsrfToken w), None)"
  using assms
  by (auto simp: ensureCsrfToken_def getAuthToken_def truthy_str_def split_beta
      split: option.splits)

lemma ensureCsrfToken_issue:
  assumes "has_window w" "\<not> truthy_str (snd (getCsrfToken w))"
    "localStorage w ''auth_token'' = Some tok" "tok \<noteq> []"
  shows "snd (ensureCsrfToken srv w) = issued_token (srv (trace w) (csrf_request w tok))"
    and "fetched CsrfIssue (since w (fst (ensureCsrfToken srv w))) = [csrf_request w tok]"
    and "warnings (since w (fst (ensureCsrfToken srv w))) = []"
    and "issued_token (srv (trace w) (csrf_request w tok)) = Some v \<Longrightarrow>
           sessionStorage (fst (ensureCsrfToken srv w)) ''csrf_token'' = Some (js_string v)"
proof -
  let ?wa = "fst (getCsrfToken w)"
  have q: "csrf_request ?wa tok = csrf_request w tok"
    by (simp add: csrf_request_def API_URL_def)
  have g: "getAuthToken ?wa = Some tok"
    using assms(1,3) by (simp add: getAuthToken_def)
  note defs = ensureCsrfToken_def split_beta g q assms(2,4) fetch_def issued_token_def
    json_of_def field_def log_error_def since_def
  show "snd (ensureCsrfToken srv w) = issued_token (srv (trace w) (csrf_request w tok))"
    by (simp add: defs split: fetch_result.splits body.splits sum.splits option.splits)
  show "fetched CsrfIssue (since w (fst (ensureCsrfToken srv w))) = [csrf_request w tok]"
    by (simp add: defs split: fetch_result.splits body.splits sum.splits option.splits)
  show "warnings (since w (fst (ensureCsrfToken srv w))) = []"
    by (simp add: defs split: fetch_result.splits body.splits sum.splits option.splits)
  show "sessionStorage (fst (ensureCsrfToken srv w)) ''csrf_token'' = Some (js_string v)"
    if "issued_token (srv (trace w) (csrf_request w tok)) = Some v"
    using that
    by (auto simp: defs split: fetch_result.splits body.splits sum.splits option.splits if_splits)
qed

lemma prepare_ensure:
  assumes "is_mutating (method_of opts)"
  shows "prepare srv endpoint opts w =
           (case ensureCsrfToken srv w of
              (w2, None) \<Rightarrow> (warn endpoint w2, base_headers opts w)
            | (w2, Some v) \<Rightarrow> (w2, (base_headers opts w)(''X-CSRF-Token'' \<mapsto> js_string v)))"
  using assms by (simp add: prepare_def attach_csrf_ensure)

lemma original_request_headers:
  "headers (original_request srv endpoint opts w) = snd (prepare srv endpoint opts w)"
  by (simp add: original_request_eq api_call_def)

lemma prepare_cached:
  assumes "has_window w" "is_mutating (method_of opts)"
    "sessionStorage w ''csrf_token'' = Some s" "s \<noteq> []"
  shows "prepare srv endpoint opts w = (w, (base_headers opts w)(''X-CSRF-Token'' \<mapsto> s))"
proof -
  have "getCsrfToken w = (w, Some s)"
    using assms(1,3,4) by (rule getCsrfToken_cached)
  then have "ensureCsrfToken srv w = (w, Some (JStr s))"
    using assms(4) by (simp add: ensureCsrfToken_def truthy_str_def)
  then show ?thesis by (simp add: prepare_ensure [OF assms(2)])
qed

lemma prepare_from_cookie:
  assumes "has_window w" "is_mutating (method_of opts)"
    "\<not> truthy_str (sessionStorage w ''csrf_token'')" "cookie_token (cookie w) = Some t" "t \<noteq> []"
  shows "prepare srv endpoint opts w =
           (w\<lparr>sessionStorage := (sessionStorage w)(''csrf_token'' \<mapsto> t)\<rparr>,
            (base_headers opts w)(''X-CSRF-Token'' \<mapsto> t))"
proof -
  have "getCsrfToken w =
          (w\<lparr>sessionStorage := (sessionStorage w)(''csrf_token'' \<mapsto> t)\<rparr>, Some t)"
    using assms(1,3,4) by (rule getCsrfToken_from_cookie)
  then have "ensureCsrfToken srv w =
          (w\<lparr>sessionStorage := (sessionStorage w)(''csrf_token'' \<mapsto> t)\<rparr>, Some (JStr t))"
    using assms(5) by (simp add: ensureCsrfToken_def truthy_str_def)
  then show ?thesis by (simp add: prepare_ensure [OF assms(2)])
qed

lemma second_segment_value:
  assumes "\<forall>ch\<in>set ws. is_space ch" "CHR ''='' \<notin> set v"
  shows "second_segment (ws @ ''csrf_token='' @ v @ ''='' @ rest) = Some v"
proof -
  have "\<not> is_space CHR ''=''"
    by (simp add: is_space_def)
  with assms(1) have "CHR ''='' \<notin> set ws"
    by blast
  then have n: "CHR ''='' \<notin> set (ws @ ''csrf_token'')"
    by simp
  have e: "ws @ ''csrf_token='' @ v @ ''='' @ rest =
           (ws @ ''csrf_token'') @ CHR ''='' # (v @ CHR ''='' # rest)"
    by simp
  have "split_on CHR ''='' ((ws @ ''csrf_token'') @ CHR ''='' # (v @ CHR ''='' # rest)) =
          (ws @ ''csrf_token'') # v # split_on CHR ''='' rest"
    by (simp only: split_on_prefix [OF n] split_on_prefix [OF assms(2)])
  then show ?thesis
    unfolding second_segment_def e by (simp only: list.case)
qed

text \<open>When \<^verbatim>\<open>ensureCsrfToken\<close> finds no token: none of the three sources has one.\<close>

lemma ensureCsrfToken_None_iff:
  assumes "has_window w"
  shows "snd (ensureCsrfToken srv w) = None \<longleftrightarrow>
           \<not> truthy_str (sessionStorage w ''csrf_token'') \<and>
           \<not> truthy_str (cookie_token (cookie w)) \<and>
           (case localStorage w ''auth_token'' of
              None \<Rightarrow> True
            | Some tok \<Rightarrow> tok = [] \<or> issued_token (srv (trace w) (csrf_request w tok)) = None)"
proof (cases "truthy_str (snd (getCsrfToken w))")
  case True
  then have s: "snd (ensureCsrfToken srv w) \<noteq> None"
    by (auto simp: ensureCsrfToken_cached truthy_str_def split: option.splits)
  have "truthy_str (sessionStorage w ''csrf_token'') \<or> truthy_str (cookie_token (cookie w))"
    using True getCsrfToken_snd [OF assms] by metis
  with s show ?thesis by auto
next
  case False
  have c: "\<not> truthy_str (sessionStorage w ''csrf_token'')"
    using False assms by (auto simp: getCsrfToken_def)
  have k: "\<not> truthy_str (cookie_token (cookie w))"
    using False getCsrfToken_snd [OF assms c] by simp
  show ?thesis
  proof (cases "truthy_str (localStorage w ''auth_token'')")
    case True
    then obtain tok where t: "localStorage w ''auth_token'' = Some tok" "tok \<noteq> []"
      by (auto simp: truthy_str_def split: option.splits)
    show ?thesis
      using ensureCsrfToken_issue(1) [OF assms False t, of srv] c k t by simp
  next
    case n: False
    show ?thesis
      using ensureCsrfToken_no_bearer [OF False n, of srv] c k n
      by (auto simp: truthy_str_def split: option.splits)
  qed
qed

lemma ensureCsrfToken_no_window:
  "\<not> has_window w \<Longrightarrow> ensureCsrfToken srv w = (w, None)"
  by (simp add: ensureCsrfToken_def getCsrfToken_def getAuthToken_def truthy_str_def)

lemma is_mutating_method_of:
  assumes "opt_method opts = Some m"
    and "toUpperCase m \<in> set [''POST'', ''PUT'', ''DELETE'', ''PATCH'']"
  shows "is_mutating (method_of opts)" "method_of opts \<noteq> ''GET''"
  using assms by (auto simp: method_of_def is_mutating_def)

lemma error_data_detail:
  "field (error_data r) ''detail'' =
     (case body r of JsonDoc j \<Rightarrow> field j ''detail'' | NotJson t \<Rightarrow> None)"
  by (simp add: error_data_def field_def split: body.splits)

lemma csrf_rejected_not:
  assumes "body r \<noteq> JsonDoc JNull"
    and "status r = 403 \<Longrightarrow>
           field (error_data r) ''detail'' = None \<or>
           (\<exists>d. field (error_data r) ''detail'' = Some d \<and> \<not> truthy d) \<or>
           (\<exists>s. field (error_data r) ''detail'' = Some (JStr s) \<and> \<not> includes_str s ''CSRF'') \<or>
           (\<exists>xs. field (error_data r) ''detail'' = Some (JArr xs) \<and> JStr ''CSRF'' \<notin> set xs)"
  shows "csrf_rejected r = Inr False"
proof (cases "status r = 403")
  case False
  then show ?thesis by (simp add: csrf_rejected_def)
next
  case True
  have n: "error_data r \<noteq> JNull"
    using assms(1) by (auto simp: error_data_def split: body.splits)
  then have g: "get_prop (error_data r) ''detail'' = Inr (field (error_data r) ''detail'')"
    by (cases "error_data r") (simp_all add: field_def)
  from assms(2) [OF True] show ?thesis
    using True g by (auto simp: csrf_rejected_def)
qed

text \<open>Unfolding for the evaluation of the client on concrete pages.\<close>

lemmas world_defs = fresh_tab_def signed_in_tab_def signed_in_no_csrf_def admin_store_def
  get_options_def post_options_def json_response_def

lemmas client_defs = apiRequest_def prepare_def attach_csrf_def settle_def recover_def
  ensureCsrfToken_def getCsrfToken_def getAuthToken_def base_headers_def method_of_def
  is_mutating_def toUpperCase_def upper_char_def api_call_def csrf_request_def API_URL_def
  fetch_def ok_def json_of_def error_data_def csrf_rejected_def original_error_def
  retry_outcome_def read_success_def http_error_def synthesized_def find_csrf_cookie_def
  second_segment_def after_first_def cookie_token_def
  issued_token_def
  trim_def is_space_def startsWith_def truthy_str_def warn_def log_error_def since_def
  field_def original_request_def first_response_def

section \<open>Login\<close>

text \<open>
  Claim C1 says that a login whose response succeeds but whose user record has
  \<^verbatim>\<open>is_admin = false\<close> ends unauthenticated: user \<^verbatim>\<open>null\<close>, \<^verbatim>\<open>isAuthenticated\<close> false,
  tokens discarded.  The store's \<^verbatim>\<open>login\<close> never looks at the flag.  With a backend that
  answers 200 and a user who is no administrator, the store ends authenticated as that
  user, and the access token, the refresh token and the CSRF token are all kept.
\<close>

theorem login_non_admin_authenticated:
  "(case store_login non_admin_backend ''user@example.com'' ''secret'' (fresh_tab, initial_AuthState) of
      ((w, st), res) \<Rightarrow>
        res = Inr () \<and> isAuthenticated st \<and> user st = Some non_admin_user \<and>
        localStorage w ''auth_token'' = Some ''access'' \<and>
        localStorage w ''refresh_token'' = Some ''refresh'' \<and>
        sessionStorage w ''csrf_token'' = Some ''csrf'')"
  by (simp add: store_login_def login_def fetch_def non_admin_backend_def json_response_def
      fresh_tab_def ok_def json_of_def setAuthToken_def store_if_truthy_def field_def
      initial_AuthState_def non_admin_user_def)

section \<open>Pagination of the users page\<close>

text \<open>
  Claim C8: with \<^verbatim>\<open>limit = 20\<close> and \<^verbatim>\<open>total = 57\<close> the page computes
  \<^verbatim>\<open>totalPages = ceil(57 / 20) = 3\<close>, and the Next button is disabled exactly when the
  current page is at least 3; in general, for a page that shows the pagination bar, it is
  disabled if and only if \<^verbatim>\<open>page >= ceil(total / limit)\<close>, which is to say that
  \<^verbatim>\<open>page * limit\<close> already covers \<^verbatim>\<open>total\<close>.
\<close>

theorem users_page_pagination:
  "totalPages 57 = 3 \<and>
   next_button page 57 = Some (3 \<le> page) \<and>
   (0 < tot \<longrightarrow> next_button page tot = Some (totalPages tot \<le> page)) \<and>
   (totalPages tot \<le> page \<longleftrightarrow> tot \<le> page * limit) \<and>
   totalPages tot = \<lceil>real_of_int tot / 20\<rceil>"
proof -
  have a: "totalPages 57 = 3"
    by (simp add: totalPages_def limit_def)
  have b: "(totalPages tot \<le> page) = (tot \<le> page * limit)"
    unfolding totalPages_def limit_def by (simp add: ceiling_le_iff field_simps) linarith
  have c: "totalPages tot = \<lceil>real_of_int tot / 20\<rceil>"
    by (simp add: totalPages_def limit_def)
  show ?thesis using a b c by (simp add: next_button_def)
qed

theorem users_page_pagination_witness:
  "(0::int) < 57 \<and> next_button 2 57 = Some False \<and> next_button 3 57 = Some True \<and>
   next_button 4 57 = Some True"
  using users_page_pagination [of 2 57] users_page_pagination [of 3 57]
    users_page_pagination [of 4 57]
  by simp

section \<open>Logout\<close>

text \<open>
  Claim C10: \<^verbatim>\<open>logout()\<close> removes the \<^verbatim>\<open>auth_token\<close> and \<^verbatim>\<open>refresh_token\<close> entries of
  the durable storage and nothing else there, and resets \<^verbatim>\<open>user\<close>, \<^verbatim>\<open>isAuthenticated\<close>
  and \<^verbatim>\<open>error\<close> of the store.  The session storage, and so the cached \<^verbatim>\<open>csrf_token\<close>,
  is left as it was: a token cached before the logout is still what \<^verbatim>\<open>getCsrfToken\<close>
  returns after it.
\<close>

theorem logout_frame:
  assumes "has_window w"
  shows "localStorage (fst (store_logout (w, st))) =
           (localStorage w)(''auth_token'' := None, ''refresh_token'' := None) \<and>
         sessionStorage (fst (store_logout (w, st))) = sessionStorage w \<and>
         cookie (fst (store_logout (w, st))) = cookie w \<and>
         trace (fst (store_logout (w, st))) = trace w \<and>
         user (snd (store_logout (w, st))) = Some JNull \<and>
         \<not> isAuthenticated (snd (store_logout (w, st))) \<and>
         error (snd (store_logout (w, st))) = Some JNull \<and>
         isLoading (snd (store_logout (w, st))) = isLoading st \<and>
         (truthy_str (sessionStorage w ''csrf_token'') \<longrightarrow>
            snd (getCsrfToken (fst (store_logout (w, st)))) = sessionStorage w ''csrf_token'')"
  using assms
  by (simp add: store_logout_def logout_def clearAuthTokens_def getCsrfToken_def)

theorem logout_frame_witness:
  "has_window signed_in_tab \<and>
   localStorage (fst (store_logout (signed_in_tab, admin_store))) ''auth_token'' = None \<and>
   localStorage (fst (store_logout (signed_in_tab, admin_store))) ''refresh_token'' = None \<and>
   localStorage (fst (store_logout (signed_in_tab, admin_store))) ''theme'' = Some ''dark'' \<and>
   user (snd (store_logout (signed_in_tab, admin_store))) = Some JNull \<and>
   \<not> isAuthenticated (snd (store_logout (signed_in_tab, admin_store))) \<and>
   truthy_str (sessionStorage signed_in_tab ''csrf_token'') \<and>
   snd (getCsrfToken (fst (store_logout (signed_in_tab, admin_store)))) = Some ''csrf''"
  using logout_frame [of signed_in_tab admin_store]
  by (simp add: world_defs truthy_str_def)

section \<open>Requests without a CSRF token\<close>

text \<open>
  Claim C5: a request with a mutating method (\<^verbatim>\<open>POST\<close>, \<^verbatim>\<open>PUT\<close>, \<^verbatim>\<open>DELETE\<close>,
  \<^verbatim>\<open>PATCH\<close>, in any letter case) for which no CSRF token is obtainable is still sent,
  once: to the base URL followed by the endpoint, with the caller's method and body and
  the headers the client builds before the CSRF step, so with no \<^verbatim>\<open>X-CSRF-Token\<close> of
  the client's (the only one it can carry is one the caller passed in
  \<^verbatim>\<open>options.headers\<close>); and a warning naming the endpoint is logged.  No token is
  obtainable when, in the browser, the session cache holds none, the cookie string gives
  none, and either no bearer token is stored or the answer of the token-issuing endpoint
  to the authenticated \<^verbatim>\<open>GET\<close> carries none; without a window there is none either.
\<close>

theorem csrf_unavailable_still_sent:
  assumes "opt_method opts = Some m"
      and "toUpperCase m \<in> set [''POST'', ''PUT'', ''DELETE'', ''PATCH'']"
      and "has_window w \<Longrightarrow>
             \<not> truthy_str (sessionStorage w ''csrf_token'') \<and>
             \<not> truthy_str (cookie_token (cookie w)) \<and>
             (case localStorage w ''auth_token'' of
                None \<Rightarrow> True
              | Some tok \<Rightarrow>
                  tok = [] \<or>
                  issued_token (srv (trace w)
                    \<lparr>url = API_URL w @ ''/api/v1/csrf-token'', http_method = Some ''GET'',
                     headers = [''Authorization'' \<mapsto> ''Bearer '' @ tok], payload = NoBody\<rparr>) = None)"
  shows "fetched Original (since w (fst (apiRequest srv endpoint opts w))) =
           [\<lparr>url = API_URL w @ endpoint, http_method = Some m,
             headers = base_headers opts w, payload = opt_body opts\<rparr>] \<and>
         sent_csrf Original (since w (fst (apiRequest srv endpoint opts w))) =
           [opt_headers opts ''X-CSRF-Token''] \<and>
         endpoint \<in> set (warnings (since w (fst (apiRequest srv endpoint opts w))))"
proof -
  have mu: "is_mutating (method_of opts)"
    using assms(1,2) by (rule is_mutating_method_of)
  have n: "snd (ensureCsrfToken srv w) = None"
  proof (cases "has_window w")
    case True
    from assms(3) [OF True] have
      "\<not> truthy_str (sessionStorage w ''csrf_token'') \<and>
       \<not> truthy_str (cookie_token (cookie w)) \<and>
       (case localStorage w ''auth_token'' of
          None \<Rightarrow> True
        | Some tok \<Rightarrow> tok = [] \<or> issued_token (srv (trace w) (csrf_request w tok)) = None)"
      by (auto simp: csrf_request_def split: option.splits)
    then show ?thesis
      using ensureCsrfToken_None_iff [OF True, of srv] by blast
  next
    case False
    then show ?thesis by (simp add: ensureCsrfToken_no_window)
  qed
  obtain w2 where w2: "ensureCsrfToken srv w = (w2, None)"
    using n by (cases "ensureCsrfToken srv w") auto
  have p: "prepare srv endpoint opts w = (warn endpoint w2, base_headers opts w)"
    using mu w2 by (simp add: prepare_def attach_csrf_ensure)
  obtain evs0 where evs0: "trace w2 = trace w @ evs0"
    using ensureCsrfToken_trace [of srv w] w2 by auto
  obtain evs1 evs2 where t:
    "trace (fst (prepare srv endpoint opts w)) = trace w @ evs1"
    "trace (fst (apiRequest srv endpoint opts w)) =
       trace w @ evs1 @ Fetch Original (original_request srv endpoint opts w) # evs2"
    using apiRequest_trace [of srv endpoint opts w] by blast
  from t(1) p evs0 have "evs1 = evs0 @ [Warn endpoint]"
    by (simp add: warn_def)
  with t(2) have w: "endpoint \<in> set (warnings (since w (fst (apiRequest srv endpoint opts w))))"
    by (simp add: since_append)
  have o: "original_request srv endpoint opts w =
             \<lparr>url = API_URL w @ endpoint, http_method = Some m,
              headers = base_headers opts w, payload = opt_body opts\<rparr>"
    using p assms(1) by (simp add: original_request_eq api_call_def)
  show ?thesis
    using w o
    by (simp add: apiRequest_sent_original sent_csrf_def base_headers_csrf)
qed

theorem csrf_unavailable_still_sent_witness:
  "opt_method post_options = Some ''post'' \<and>
   toUpperCase ''post'' \<in> set [''POST'', ''PUT'', ''DELETE'', ''PATCH''] \<and>
   has_window signed_in_no_csrf \<and>
   \<not> truthy_str (sessionStorage signed_in_no_csrf ''csrf_token'') \<and>
   \<not> truthy_str (cookie_token (cookie signed_in_no_csrf)) \<and>
   localStorage signed_in_no_csrf ''auth_token'' = Some ''access'' \<and>
   issued_token (no_token_backend (trace signed_in_no_csrf)
     \<lparr>url = ''http://localhost:7300/api/v1/csrf-token'', http_method = Some ''GET'',
      headers = [''Authorization'' \<mapsto> ''Bearer access''], payload = NoBody\<rparr>) = None \<and>
   map url (fetched Original (since signed_in_no_csrf
     (fst (apiRequest no_token_backend ''/api/v1/admin/users/7/ban'' post_options signed_in_no_csrf))))
     = [''http://localhost:7300/api/v1/admin/users/7/ban''] \<and>
   map http_method (fetched Original (since signed_in_no_csrf
     (fst (apiRequest no_token_backend ''/api/v1/admin/users/7/ban'' post_options signed_in_no_csrf))))
     = [Some ''post''] \<and>
   map payload (fetched Original (since signed_in_no_csrf
     (fst (apiRequest no_token_backend ''/api/v1/admin/users/7/ban'' post_options signed_in_no_csrf))))
     = [Raw ''{}''] \<and>
   sent_header Original ''Content-Type'' (since signed_in_no_csrf
     (fst (apiRequest no_token_backend ''/api/v1/admin/users/7/ban'' post_options signed_in_no_csrf)))
     = [Some ''application/json''] \<and>
   sent_header Original ''Authorization'' (since signed_in_no_csrf
     (fst (apiRequest no_token_backend ''/api/v1/admin/users/7/ban'' post_options signed_in_no_csrf)))
     = [Some ''Bearer access''] \<and>
   sent_csrf Original (since signed_in_no_csrf
     (fst (apiRequest no_token_backend ''/api/v1/admin/users/7/ban'' post_options signed_in_no_csrf)))
     = [None] \<and>
   ''/api/v1/admin/users/7/ban'' \<in> set (warnings (since signed_in_no_csrf
     (fst (apiRequest no_token_backend ''/api/v1/admin/users/7/ban'' post_options signed_in_no_csrf))))"
proof -
  let ?e = "''/api/v1/admin/users/7/ban''"
  have m: "opt_method post_options = Some ''post''"
    by (simp add: post_options_def)
  have u: "toUpperCase ''post'' \<in> set [''POST'', ''PUT'', ''DELETE'', ''PATCH'']"
    by (simp add: toUpperCase_def upper_char_def)
  have a: "has_window signed_in_no_csrf"
    "\<not> truthy_str (sessionStorage signed_in_no_csrf ''csrf_token'')"
    "\<not> truthy_str (cookie_token (cookie signed_in_no_csrf))"
    "localStorage signed_in_no_csrf ''auth_token'' = Some ''access''"
    "API_URL signed_in_no_csrf = ''http://localhost:7300''"
    by (simp_all add: world_defs client_defs)
  have i: "issued_token (no_token_backend (trace signed_in_no_csrf)
     \<lparr>url = ''http://localhost:7300/api/v1/csrf-token'', http_method = Some ''GET'',
      headers = [''Authorization'' \<mapsto> ''Bearer access''], payload = NoBody\<rparr>) = None"
    by (simp add: issued_token_def no_token_backend_def json_response_def ok_def)
  have b: "base_headers post_options signed_in_no_csrf ''Content-Type'' = Some ''application/json''"
    "base_headers post_options signed_in_no_csrf ''Authorization'' = Some ''Bearer access''"
    by (simp_all add: world_defs client_defs Let_def)
  have h: "\<not> truthy_str (sessionStorage signed_in_no_csrf ''csrf_token'') \<and>
           \<not> truthy_str (cookie_token (cookie signed_in_no_csrf)) \<and>
           (case localStorage signed_in_no_csrf ''auth_token'' of
              None \<Rightarrow> True
            | Some tok \<Rightarrow>
                tok = [] \<or>
                issued_token (no_token_backend (trace signed_in_no_csrf)
                  \<lparr>url = API_URL signed_in_no_csrf @ ''/api/v1/csrf-token'',
                   http_method = Some ''GET'',
                   headers = [''Authorization'' \<mapsto> ''Bearer '' @ tok], payload = NoBody\<rparr>) = None)"
    using a i by simp
  show ?thesis
    using csrf_unavailable_still_sent [OF m u, of signed_in_no_csrf no_token_backend ?e]
      h m u a(1-4) i b
    by (simp add: sent_header_def sent_csrf_def a(5) base_headers_csrf post_options_def)
qed

section \<open>Re-validation of the session\<close>

text \<open>
  Claim C7: when \<^verbatim>\<open>fetchUser()\<close> fails (the request behind it throws) or the user
  record it gets has no true \<^verbatim>\<open>is_admin\<close> flag, a session that was authenticated is
  cleared: \<^verbatim>\<open>auth_token\<close> and \<^verbatim>\<open>refresh_token\<close> are removed from the storage, and the
  store ends with \<^verbatim>\<open>user\<close> \<^verbatim>\<open>null\<close> and \<^verbatim>\<open>isAuthenticated\<close> false.
\<close>

theorem fetchUser_clears_session:
  assumes "has_window w"
      and "case snd (getCurrentUser srv w) of
             Inl e \<Rightarrow> True
           | Inr u \<Rightarrow> \<not> truthy_opt (field u ''is_admin'')"
  shows "localStorage (fst (fetchUser srv (w, st))) =
           (localStorage w)(''auth_token'' := None, ''refresh_token'' := None) \<and>
         user (snd (fetchUser srv (w, st))) = Some JNull \<and>
         \<not> isAuthenticated (snd (fetchUser srv (w, st)))"
proof -
  obtain w1 res where g: "getCurrentUser srv w = (w1, res)"
    by (cases "getCurrentUser srv w")
  have "has_window (fst (getCurrentUser srv w))"
    "localStorage (fst (getCurrentUser srv w)) = localStorage w"
    using assms(1) by (simp_all add: getCurrentUser_def)
  with g have f: "has_window w1" "localStorage w1 = localStorage w"
    by simp_all
  have "fetchUser srv (w, st) = clear_auth (w1, st)"
  proof (cases res)
    case (Inl e)
    with g show ?thesis by (simp add: fetchUser_def)
  next
    case (Inr u)
    with g assms(2) have "\<not> truthy_opt (field u ''is_admin'')" by simp
    with g Inr show ?thesis
      by (cases u) (simp_all add: fetchUser_def field_def)
  qed
  with f show ?thesis
    by (simp add: clear_auth_def logout_def clearAuthTokens_def)
qed

theorem fetchUser_clears_session_witness:
  "has_window signed_in_tab \<and>
   snd (getCurrentUser offline_backend signed_in_tab) = Inl NetworkError \<and>
   snd (getCurrentUser non_admin_me_backend signed_in_tab) = Inr non_admin_user \<and>
   \<not> truthy_opt (field non_admin_user ''is_admin'') \<and>
   isAuthenticated admin_store \<and>
   localStorage (fst (fetchUser offline_backend (signed_in_tab, admin_store))) ''auth_token'' = None \<and>
   \<not> isAuthenticated (snd (fetchUser offline_backend (signed_in_tab, admin_store))) \<and>
   localStorage (fst (fetchUser non_admin_me_backend (signed_in_tab, admin_store))) ''auth_token'' = None \<and>
   localStorage (fst (fetchUser non_admin_me_backend (signed_in_tab, admin_store))) ''refresh_token'' = None \<and>
   user (snd (fetchUser non_admin_me_backend (signed_in_tab, admin_store))) = Some JNull \<and>
   \<not> isAuthenticated (snd (fetchUser non_admin_me_backend (signed_in_tab, admin_store)))"
proof -
  have w: "has_window signed_in_tab"
    by (simp add: world_defs)
  have a: "snd (getCurrentUser offline_backend signed_in_tab) = Inl NetworkError"
    by (simp add: getCurrentUser_def world_defs client_defs offline_backend_def)
  have b: "snd (getCurrentUser non_admin_me_backend signed_in_tab) = Inr non_admin_user"
    by (simp add: getCurrentUser_def world_defs client_defs non_admin_me_backend_def)
  have c: "\<not> truthy_opt (field non_admin_user ''is_admin'')"
    by (simp add: non_admin_user_def field_def)
  show ?thesis
    using fetchUser_clears_session [of signed_in_tab offline_backend admin_store]
      fetchUser_clears_session [of signed_in_tab non_admin_me_backend admin_store]
      w a b c
    by (simp add: admin_store_def)
qed

section \<open>Successful responses\<close>

text \<open>
  Claim C4 says that a 2xx response whose body is a JSON document is parsed and returned,
  and that a 2xx response whose body is empty or not JSON (whatever its content type)
  makes \<^verbatim>\<open>apiRequest\<close> return \<^verbatim>\<open>{}\<close> without throwing.  The code returns \<^verbatim>\<open>{}\<close> only
  for an empty body whose content type is not JSON.  A 200 response with content type
  \<^verbatim>\<open>text/plain\<close> and body \<^verbatim>\<open>OK\<close> goes to \<^verbatim>\<open>JSON.parse(text)\<close> and throws a
  \<^verbatim>\<open>SyntaxError\<close>, and so does a 200 response with content type \<^verbatim>\<open>application/json\<close>
  and an empty body, in \<^verbatim>\<open>response.json()\<close>.
\<close>

theorem success_body_not_json_throws:
  "snd (apiRequest plain_text_backend ''/api/v1/admin/status'' get_options signed_in_tab) =
     Inl SyntaxError \<and>
   snd (apiRequest empty_json_backend ''/api/v1/admin/status'' get_options signed_in_tab) =
     Inl SyntaxError"
  by (simp add: world_defs client_defs plain_text_backend_def empty_json_backend_def)

section \<open>Failures that are not CSRF rejections\<close>

text \<open>
  Claim C3 says that a non-2xx response that is not a 403 with \<^verbatim>\<open>CSRF\<close> in its
  \<^verbatim>\<open>detail\<close> is never retried and throws an error object whose \<^verbatim>\<open>detail\<close> is the
  backend's when the body parses as JSON with a \<^verbatim>\<open>detail\<close> field, and the synthesized
  \<^verbatim>\<open>HTTP <status>: <statusText>\<close> otherwise.  As stated this fails: the code keeps the
  backend's \<^verbatim>\<open>detail\<close> only when it is truthy.  A 400 response with the body
  \<^verbatim>\<open>{"detail": ""}\<close> throws the synthesized message, not the empty one of the backend.
\<close>

theorem empty_detail_replaced:
  "first_response empty_detail_backend ''/api/v1/admin/users'' get_options signed_in_tab =
     Responded (json_response 400 ''Bad Request'' (JObj [(''detail'', JStr [])])) \<and>
   snd (apiRequest empty_detail_backend ''/api/v1/admin/users'' get_options signed_in_tab) =
     Inl (Thrown (JObj [(''detail'', JStr ''HTTP 400: Bad Request'')])) \<and>
   thrown_detail (snd (apiRequest empty_detail_backend ''/api/v1/admin/users'' get_options signed_in_tab))
     \<noteq> Some (JStr [])"
  by (simp add: world_defs client_defs empty_detail_backend_def thrown_detail_def show_nat.simps)

text \<open>
  Claim C3 as amended.  Take a response that is not 2xx and whose body is not the JSON
  document \<^verbatim>\<open>null\<close>, and let \<open>dt\<close> be the \<^verbatim>\<open>detail\<close> of its body when the body
  parses as JSON.  If the status is 403, let \<open>dt\<close> moreover be absent, falsy, a string
  without \<^verbatim>\<open>CSRF\<close> in it, or a list without the element \<^verbatim>\<open>CSRF\<close>.  Then nothing is
  sent after the one request (no retry, no request for a token), and the call throws an
  error object whose \<^verbatim>\<open>detail\<close> is the backend's when that is truthy, and the
  synthesized \<^verbatim>\<open>HTTP <status>: <statusText>\<close> otherwise.  The responses left out are
  those where the code reads a property of \<^verbatim>\<open>null\<close> or calls \<^verbatim>\<open>includes\<close> on a
  \<^verbatim>\<open>detail\<close> that has no such method.
\<close>

theorem non_csrf_failure_surfaced:
  assumes "first_response srv endpoint opts w = Responded r"
      and "status r < 200 \<or> 299 < status r"
      and "body r \<noteq> JsonDoc JNull"
      and "dt = (case body r of JsonDoc j \<Rightarrow> field j ''detail'' | NotJson t \<Rightarrow> None)"
      and "status r = 403 \<Longrightarrow>
             dt = None \<or>
             (\<exists>d. dt = Some d \<and> \<not> truthy d) \<or>
             (\<exists>s. dt = Some (JStr s) \<and> \<not> includes_str s ''CSRF'') \<or>
             (\<exists>xs. dt = Some (JArr xs) \<and> JStr ''CSRF'' \<notin> set xs)"
  shows "snd (apiRequest srv endpoint opts w) =
           Inl (Thrown (if truthy_opt dt
                        then (case body r of JsonDoc j \<Rightarrow> j | NotJson t \<Rightarrow> JObj [])
                        else JObj [(''detail'',
                               JStr (''HTTP '' @ show_nat (status r) @ '': '' @ statusText r))])) \<and>
         thrown_detail (snd (apiRequest srv endpoint opts w)) =
           Some (case dt of
                   None \<Rightarrow> JStr (''HTTP '' @ show_nat (status r) @ '': '' @ statusText r)
                 | Some d \<Rightarrow>
                     if truthy d then d
                     else JStr (''HTTP '' @ show_nat (status r) @ '': '' @ statusText r)) \<and>
         since w (fst (apiRequest srv endpoint opts w)) =
           since w (fst (prepare srv endpoint opts w)) @
           [Fetch Original
              \<lparr>url = API_URL w @ endpoint, http_method = opt_method opts,
               headers = snd (prepare srv endpoint opts w), payload = opt_body opts\<rparr>] \<and>
         fetched Retry (since w (fst (apiRequest srv endpoint opts w))) = []"
proof -
  let ?w2 = "after_first srv endpoint opts w"
  let ?synth = "''HTTP '' @ show_nat (status r) @ '': '' @ statusText r"
  have dt: "field (error_data r) ''detail'' = dt"
    using assms(4) by (simp add: error_data_detail)
  have nok: "\<not> ok r"
    using assms(2) by (auto simp: ok_def)
  have c: "csrf_rejected r = Inr False"
    using assms(3) assms(5) unfolding dt [symmetric] by (rule csrf_rejected_not)
  have a: "apiRequest srv endpoint opts w = (?w2, Inl (original_error r))"
    using assms(1) nok c by (simp add: apiRequest_unfold settle_def)
  have e: "error_data r = (case body r of JsonDoc j \<Rightarrow> j | NotJson t \<Rightarrow> JObj [])"
    by (simp add: error_data_def)
  have r: "snd (apiRequest srv endpoint opts w) =
           Inl (Thrown (if truthy_opt dt
                        then (case body r of JsonDoc j \<Rightarrow> j | NotJson t \<Rightarrow> JObj [])
                        else JObj [(''detail'', JStr ?synth)]))"
  proof -
    have "original_error r =
            Thrown (if truthy_opt (field (error_data r) ''detail'') then error_data r
                    else http_error r)"
      using assms(3) by (rule original_error_detail)
    then have "original_error r = Thrown (if truthy_opt dt then error_data r else http_error r)"
      unfolding dt .
    with a show ?thesis
      by (simp add: e http_error_def synthesized_def)
  qed
  have d: "thrown_detail (snd (apiRequest srv endpoint opts w)) =
           Some (case dt of None \<Rightarrow> JStr ?synth
                 | Some d \<Rightarrow> if truthy d then d else JStr ?synth)"
    unfolding r using dt
    by (auto simp: thrown_detail_def e field_def split: option.splits)
  obtain evs where evs: "trace (fst (prepare srv endpoint opts w)) = trace w @ evs"
    "fetched Retry evs = []"
    using prepare_trace [of srv endpoint opts w] by auto
  have o: "original_request srv endpoint opts w =
             \<lparr>url = API_URL w @ endpoint, http_method = opt_method opts,
              headers = snd (prepare srv endpoint opts w), payload = opt_body opts\<rparr>"
    by (simp add: original_request_eq api_call_def)
  have t: "since w (fst (apiRequest srv endpoint opts w)) =
           since w (fst (prepare srv endpoint opts w)) @
           [Fetch Original
              \<lparr>url = API_URL w @ endpoint, http_method = opt_method opts,
               headers = snd (prepare srv endpoint opts w), payload = opt_body opts\<rparr>]"
    using a evs(1) by (simp add: after_first_trace since_def o)
  have f: "fetched Retry (since w (fst (apiRequest srv endpoint opts w))) = []"
    unfolding t using evs by (simp add: since_def)
  show ?thesis
    using r d t f by simp
qed

theorem non_csrf_failure_surfaced_witness:
  "first_response not_found_backend ''/api/v1/admin/users/9'' get_options signed_in_tab =
     Responded (json_response 404 ''Not Found'' (JObj [(''detail'', JStr ''User not found'')])) \<and>
   status (json_response 404 ''Not Found'' (JObj [(''detail'', JStr ''User not found'')])) = 404 \<and>
   thrown_detail (snd (apiRequest not_found_backend ''/api/v1/admin/users/9'' get_options signed_in_tab)) =
     Some (JStr ''User not found'') \<and>
   since signed_in_tab
     (fst (apiRequest not_found_backend ''/api/v1/admin/users/9'' get_options signed_in_tab)) =
     [Fetch Original
        \<lparr>url = ''http://localhost:7300/api/v1/admin/users/9'', http_method = None,
         headers = [''Content-Type'' \<mapsto> ''application/json'', ''Authorization'' \<mapsto> ''Bearer access''],
         payload = NoBody\<rparr>] \<and>
   first_response forbidden_backend ''/api/v1/admin/users/9/ban'' post_options signed_in_tab =
     Responded (json_response 403 ''Forbidden'' (JObj [(''detail'', JStr ''Admin access required'')])) \<and>
   status (json_response 403 ''Forbidden'' (JObj [(''detail'', JStr ''Admin access required'')])) = 403 \<and>
   \<not> includes_str ''Admin access required'' ''CSRF'' \<and>
   thrown_detail (snd (apiRequest forbidden_backend ''/api/v1/admin/users/9/ban'' post_options signed_in_tab)) =
     Some (JStr ''Admin access required'') \<and>
   since signed_in_tab
     (fst (apiRequest forbidden_backend ''/api/v1/admin/users/9/ban'' post_options signed_in_tab)) =
     [Fetch Original
        \<lparr>url = ''http://localhost:7300/api/v1/admin/users/9/ban'', http_method = Some ''post'',
         headers = [''Content-Type'' \<mapsto> ''application/json'', ''Authorization'' \<mapsto> ''Bearer access'',
                    ''X-CSRF-Token'' \<mapsto> ''csrf''],
         payload = Raw ''{}''\<rparr>]"
proof -
  let ?j = "JObj [(''detail'', JStr ''User not found'')]"
  let ?r = "json_response 404 ''Not Found'' ?j"
  let ?e = "''/api/v1/admin/users/9''"
  let ?j' = "JObj [(''detail'', JStr ''Admin access required'')]"
  let ?r' = "json_response 403 ''Forbidden'' ?j'"
  let ?e' = "''/api/v1/admin/users/9/ban''"
  have a: "first_response not_found_backend ?e get_options signed_in_tab = Responded ?r"
    by (simp add: first_response_def not_found_backend_def)
  have b: "status ?r = 404" "status ?r < 200 \<or> 299 < status ?r" "body ?r \<noteq> JsonDoc JNull"
    "Some (JStr ''User not found'') =
       (case body ?r of JsonDoc j \<Rightarrow> field j ''detail'' | NotJson t \<Rightarrow> None)"
    by (simp_all add: json_response_def field_def)
  have p: "since signed_in_tab (fst (prepare not_found_backend ?e get_options signed_in_tab)) = []"
    "snd (prepare not_found_backend ?e get_options signed_in_tab) =
       [''Content-Type'' \<mapsto> ''application/json'', ''Authorization'' \<mapsto> ''Bearer access'']"
    "API_URL signed_in_tab = ''http://localhost:7300''"
    by (simp_all add: world_defs client_defs Let_def)
  have a': "first_response forbidden_backend ?e' post_options signed_in_tab = Responded ?r'"
    by (simp add: first_response_def forbidden_backend_def)
  have b': "status ?r' = 403" "status ?r' < 200 \<or> 299 < status ?r'" "body ?r' \<noteq> JsonDoc JNull"
    "Some (JStr ''Admin access required'') =
       (case body ?r' of JsonDoc j \<Rightarrow> field j ''detail'' | NotJson t \<Rightarrow> None)"
    by (simp_all add: json_response_def field_def)
  have c': "\<not> includes_str ''Admin access required'' ''CSRF''"
    by (simp add: startsWith_def)
  have p': "since signed_in_tab (fst (prepare forbidden_backend ?e' post_options signed_in_tab)) = []"
    "snd (prepare forbidden_backend ?e' post_options signed_in_tab) =
       [''Content-Type'' \<mapsto> ''application/json'', ''Authorization'' \<mapsto> ''Bearer access'',
        ''X-CSRF-Token'' \<mapsto> ''csrf'']"
    by (simp_all add: world_defs client_defs Let_def)
  have o: "opt_method get_options = None" "opt_body get_options = NoBody"
    "opt_method post_options = Some ''post''" "opt_body post_options = Raw ''{}''"
    by (simp_all add: get_options_def post_options_def)
  have 1: "thrown_detail (snd (apiRequest not_found_backend ?e get_options signed_in_tab)) =
             Some (JStr ''User not found'') \<and>
           since signed_in_tab (fst (apiRequest not_found_backend ?e get_options signed_in_tab)) =
             [Fetch Original
                \<lparr>url = ''http://localhost:7300/api/v1/admin/users/9'', http_method = None,
                 headers = [''Content-Type'' \<mapsto> ''application/json'',
                            ''Authorization'' \<mapsto> ''Bearer access''],
                 payload = NoBody\<rparr>]"
    using non_csrf_failure_surfaced [OF a b(2,3,4)] b(1)
    by (simp add: p o json_response_def thrown_detail_def field_def)
  have 2: "thrown_detail (snd (apiRequest forbidden_backend ?e' post_options signed_in_tab)) =
             Some (JStr ''Admin access required'') \<and>
           since signed_in_tab (fst (apiRequest forbidden_backend ?e' post_options signed_in_tab)) =
             [Fetch Original
                \<lparr>url = ''http://localhost:7300/api/v1/admin/users/9/ban'', http_method = Some ''post'',
                 headers = [''Content-Type'' \<mapsto> ''application/json'',
                            ''Authorization'' \<mapsto> ''Bearer access'', ''X-CSRF-Token'' \<mapsto> ''csrf''],
                 payload = Raw ''{}''\<rparr>]"
    using non_csrf_failure_surfaced [OF a' b'(2,3,4)] c'
    by (simp add: p' p(3) o json_response_def thrown_detail_def field_def)
  show ?thesis
    using a b(1) a' b'(1) c' 1 2 by simp
qed

section \<open>Recovery from a CSRF rejection\<close>




section \<open>Resolution of the CSRF token\<close>

text \<open>
  Claim C6: for a mutating request the value of \<^verbatim>\<open>X-CSRF-Token\<close> is resolved in this
  order.  (a) A value cached in the session storage is used, and nothing else happens.
  (b) Otherwise the value parsed from the \<^verbatim>\<open>csrf_token\<close> cookie is used and written to
  the session cache.  (c) Otherwise, if a bearer token is present, one request goes to
  the token-issuing endpoint: a \<^verbatim>\<open>GET\<close> of \<^verbatim>\<open>/api/v1/csrf-token\<close> under the base URL
  with the header \<^verbatim>\<open>Authorization: Bearer <token>\<close> and no body; a \<^verbatim>\<open>csrf_token\<close> it
  returns is cached and used, and without one the headers stay as they were and a
  warning is logged.  (d) Otherwise (no bearer token) nothing is fetched, no header is
  attached and a warning is logged.  Present means a non-empty string, as the tests of
  the code read it.  The headers so resolved are those of the one request that line 124
  sends, to the endpoint, with the caller's method and body.
\<close>

theorem csrf_resolution_order:
  assumes "has_window w"
      and "opt_method opts = Some m"
      and "toUpperCase m \<in> set [''POST'', ''PUT'', ''DELETE'', ''PATCH'']"
  shows "(sessionStorage w ''csrf_token'' = Some s \<and> s \<noteq> [] \<longrightarrow>
            prepare srv endpoint opts w = (w, (base_headers opts w)(''X-CSRF-Token'' \<mapsto> s))) \<and>
         (\<not> truthy_str (sessionStorage w ''csrf_token'') \<and>
          cookie_token (cookie w) = Some t \<and> t \<noteq> [] \<longrightarrow>
            prepare srv endpoint opts w =
              (w\<lparr>sessionStorage := (sessionStorage w)(''csrf_token'' \<mapsto> t)\<rparr>,
               (base_headers opts w)(''X-CSRF-Token'' \<mapsto> t))) \<and>
         (\<not> truthy_str (sessionStorage w ''csrf_token'') \<and>
          \<not> truthy_str (cookie_token (cookie w)) \<and>
          localStorage w ''auth_token'' = Some tok \<and> tok \<noteq> [] \<longrightarrow>
            fetched CsrfIssue (since w (fst (prepare srv endpoint opts w))) =
              [\<lparr>url = API_URL w @ ''/api/v1/csrf-token'', http_method = Some ''GET'',
                 headers = [''Authorization'' \<mapsto> ''Bearer '' @ tok], payload = NoBody\<rparr>] \<and>
            (case issued_token (srv (trace w)
                \<lparr>url = API_URL w @ ''/api/v1/csrf-token'', http_method = Some ''GET'',
                 headers = [''Authorization'' \<mapsto> ''Bearer '' @ tok], payload = NoBody\<rparr>) of
               Some v \<Rightarrow>
                 snd (prepare srv endpoint opts w) =
                   (base_headers opts w)(''X-CSRF-Token'' \<mapsto> js_string v) \<and>
                 sessionStorage (fst (prepare srv endpoint opts w)) ''csrf_token'' =
                   Some (js_string v) \<and>
                 warnings (since w (fst (prepare srv endpoint opts w))) = []
             | None \<Rightarrow>
                 snd (prepare srv endpoint opts w) = base_headers opts w \<and>
                 warnings (since w (fst (prepare srv endpoint opts w))) = [endpoint])) \<and>
         (\<not> truthy_str (sessionStorage w ''csrf_token'') \<and>
          \<not> truthy_str (cookie_token (cookie w)) \<and>
          \<not> truthy_str (localStorage w ''auth_token'') \<longrightarrow>
            fetched CsrfIssue (since w (fst (prepare srv endpoint opts w))) = [] \<and>
            snd (prepare srv endpoint opts w) = base_headers opts w \<and>
            warnings (since w (fst (prepare srv endpoint opts w))) = [endpoint]) \<and>
         fetched Original (since w (fst (apiRequest srv endpoint opts w))) =
           [\<lparr>url = API_URL w @ endpoint, http_method = Some m,
             headers = snd (prepare srv endpoint opts w), payload = opt_body opts\<rparr>]"
proof -
  have mu: "is_mutating (method_of opts)"
    using assms(2,3) by (rule is_mutating_method_of)
  note p = prepare_ensure [OF mu]
  have cr: "csrf_request w tok =
              \<lparr>url = API_URL w @ ''/api/v1/csrf-token'', http_method = Some ''GET'',
               headers = [''Authorization'' \<mapsto> ''Bearer '' @ tok], payload = NoBody\<rparr>"
    by (simp add: csrf_request_def)
  have og: "original_request srv endpoint opts w =
              \<lparr>url = API_URL w @ endpoint, http_method = Some m,
               headers = snd (prepare srv endpoint opts w), payload = opt_body opts\<rparr>"
    using assms(2) by (simp add: original_request_eq api_call_def)
  have a: "prepare srv endpoint opts w = (w, (base_headers opts w)(''X-CSRF-Token'' \<mapsto> s))"
    if "sessionStorage w ''csrf_token'' = Some s" "s \<noteq> []"
    using assms(1) mu that by (rule prepare_cached)
  have b: "prepare srv endpoint opts w =
             (w\<lparr>sessionStorage := (sessionStorage w)(''csrf_token'' \<mapsto> t)\<rparr>,
              (base_headers opts w)(''X-CSRF-Token'' \<mapsto> t))"
    if "\<not> truthy_str (sessionStorage w ''csrf_token'')" "cookie_token (cookie w) = Some t" "t \<noteq> []"
    using assms(1) mu that by (rule prepare_from_cookie)
  have c0: "fetched CsrfIssue (since w (fst (prepare srv endpoint opts w))) =
              [csrf_request w tok] \<and>
            (case issued_token (srv (trace w) (csrf_request w tok)) of
               Some v \<Rightarrow>
                 snd (prepare srv endpoint opts w) =
                   (base_headers opts w)(''X-CSRF-Token'' \<mapsto> js_string v) \<and>
                 sessionStorage (fst (prepare srv endpoint opts w)) ''csrf_token'' =
                   Some (js_string v) \<and>
                 warnings (since w (fst (prepare srv endpoint opts w))) = []
             | None \<Rightarrow>
                 snd (prepare srv endpoint opts w) = base_headers opts w \<and>
                 warnings (since w (fst (prepare srv endpoint opts w))) = [endpoint])"
    if h: "\<not> truthy_str (sessionStorage w ''csrf_token'')" "\<not> truthy_str (cookie_token (cookie w))"
      "localStorage w ''auth_token'' = Some tok" "tok \<noteq> []"
  proof -
    have n: "\<not> truthy_str (snd (getCsrfToken w))"
      using getCsrfToken_snd [OF assms(1) h(1)] h(2) by simp
    note e = ensureCsrfToken_issue [OF assms(1) n h(3,4), of srv]
    obtain w2 res where w2: "ensureCsrfToken srv w = (w2, res)"
      by (cases "ensureCsrfToken srv w")
    obtain evs where evs: "trace w2 = trace w @ evs"
      using ensureCsrfToken_trace [of srv w] w2 by auto
    have f: "fetched CsrfIssue evs = [csrf_request w tok]" "warnings evs = []"
      using e(2,3) w2 evs by (simp_all add: since_def)
    have r: "res = issued_token (srv (trace w) (csrf_request w tok))"
      using e(1) w2 by simp
    show ?thesis
    proof (cases res)
      case None
      with w2 r evs f show ?thesis
        by (simp add: p warn_def since_def)
    next
      case (Some v)
      with e(4) [of v] r w2 have "sessionStorage w2 ''csrf_token'' = Some (js_string v)"
        by simp
      with Some w2 r evs f show ?thesis
        by (simp add: p since_def)
    qed
  qed
  have c: "fetched CsrfIssue (since w (fst (prepare srv endpoint opts w))) =
              [\<lparr>url = API_URL w @ ''/api/v1/csrf-token'', http_method = Some ''GET'',
                 headers = [''Authorization'' \<mapsto> ''Bearer '' @ tok], payload = NoBody\<rparr>] \<and>
            (case issued_token (srv (trace w)
                \<lparr>url = API_URL w @ ''/api/v1/csrf-token'', http_method = Some ''GET'',
                 headers = [''Authorization'' \<mapsto> ''Bearer '' @ tok], payload = NoBody\<rparr>) of
               Some v \<Rightarrow>
                 snd (prepare srv endpoint opts w) =
                   (base_headers opts w)(''X-CSRF-Token'' \<mapsto> js_string v) \<and>
                 sessionStorage (fst (prepare srv endpoint opts w)) ''csrf_token'' =
                   Some (js_string v) \<and>
                 warnings (since w (fst (prepare srv endpoint opts w))) = []
             | None \<Rightarrow>
                 snd (prepare srv endpoint opts w) = base_headers opts w \<and>
                 warnings (since w (fst (prepare srv endpoint opts w))) = [endpoint])"
    if h: "\<not> truthy_str (sessionStorage w ''csrf_token'')" "\<not> truthy_str (cookie_token (cookie w))"
      "localStorage w ''auth_token'' = Some tok" "tok \<noteq> []"
    using c0 [OF that] unfolding cr .
  have d: "fetched CsrfIssue (since w (fst (prepare srv endpoint opts w))) = [] \<and>
            snd (prepare srv endpoint opts w) = base_headers opts w \<and>
            warnings (since w (fst (prepare srv endpoint opts w))) = [endpoint]"
    if h: "\<not> truthy_str (sessionStorage w ''csrf_token'')" "\<not> truthy_str (cookie_token (cookie w))"
      "\<not> truthy_str (localStorage w ''auth_token'')"
  proof -
    have n: "\<not> truthy_str (snd (getCsrfToken w))"
      using getCsrfToken_snd [OF assms(1) h(1)] h(2) by simp
    show ?thesis
      by (simp add: p ensureCsrfToken_no_bearer [OF n h(3)] warn_def since_def)
  qed
  have o: "fetched Original (since w (fst (apiRequest srv endpoint opts w))) =
           [\<lparr>url = API_URL w @ endpoint, http_method = Some m,
             headers = snd (prepare srv endpoint opts w), payload = opt_body opts\<rparr>]"
    by (simp add: apiRequest_sent_original og)
  show ?thesis
    using a b c d o by blast
qed

theorem csrf_resolution_order_witness:
  "has_window signed_in_tab \<and> has_window padded_cookie_tab \<and> has_window nbsp_cookie_tab \<and>
   has_window signed_in_no_csrf \<and> has_window fresh_tab \<and>
   opt_method post_options = Some ''post'' \<and>
   toUpperCase ''post'' \<in> set [''POST'', ''PUT'', ''DELETE'', ''PATCH''] \<and>
   sessionStorage signed_in_tab ''csrf_token'' = Some ''csrf'' \<and>
   fetched CsrfIssue (since signed_in_tab
     (fst (prepare offline_backend ''/api/v1/e2e-tests/run'' post_options signed_in_tab))) = [] \<and>
   sent_csrf Original (since signed_in_tab
     (fst (apiRequest offline_backend ''/api/v1/e2e-tests/run'' post_options signed_in_tab))) =
     [Some ''csrf''] \<and>
   \<not> truthy_str (sessionStorage padded_cookie_tab ''csrf_token'') \<and>
   cookie_token (cookie padded_cookie_tab) = Some ''abc123'' \<and>
   sessionStorage (fst (prepare offline_backend ''/api/v1/e2e-tests/run'' post_options
     padded_cookie_tab)) ''csrf_token'' = Some ''abc123'' \<and>
   sent_csrf Original (since padded_cookie_tab
     (fst (apiRequest offline_backend ''/api/v1/e2e-tests/run'' post_options padded_cookie_tab))) =
     [Some ''abc123''] \<and>
   \<not> truthy_str (sessionStorage nbsp_cookie_tab ''csrf_token'') \<and>
   cookie_token (cookie nbsp_cookie_tab) = Some ''first'' \<and>
   sent_csrf Original (since nbsp_cookie_tab
     (fst (apiRequest offline_backend ''/api/v1/e2e-tests/run'' post_options nbsp_cookie_tab))) =
     [Some ''first''] \<and>
   \<not> truthy_str (sessionStorage signed_in_no_csrf ''csrf_token'') \<and>
   \<not> truthy_str (cookie_token (cookie signed_in_no_csrf)) \<and>
   localStorage signed_in_no_csrf ''auth_token'' = Some ''access'' \<and>
   fetched CsrfIssue (since signed_in_no_csrf
     (fst (prepare csrf_strict_backend ''/api/v1/e2e-tests/run'' post_options signed_in_no_csrf))) =
     [\<lparr>url = ''http://localhost:7300/api/v1/csrf-token'', http_method = Some ''GET'',
       headers = [''Authorization'' \<mapsto> ''Bearer access''], payload = NoBody\<rparr>] \<and>
   sessionStorage (fst (prepare csrf_strict_backend ''/api/v1/e2e-tests/run'' post_options
     signed_in_no_csrf)) ''csrf_token'' = Some ''fresh'' \<and>
   fetched Original (since signed_in_no_csrf
     (fst (apiRequest csrf_strict_backend ''/api/v1/e2e-tests/run'' post_options signed_in_no_csrf))) =
     [\<lparr>url = ''http://localhost:7300/api/v1/e2e-tests/run'', http_method = Some ''post'',
       headers = [''Content-Type'' \<mapsto> ''application/json'', ''Authorization'' \<mapsto> ''Bearer access'',
                  ''X-CSRF-Token'' \<mapsto> ''fresh''],
       payload = Raw ''{}''\<rparr>] \<and>
   \<not> truthy_str (sessionStorage fresh_tab ''csrf_token'') \<and>
   \<not> truthy_str (cookie_token (cookie fresh_tab)) \<and>
   \<not> truthy_str (localStorage fresh_tab ''auth_token'') \<and>
   fetched CsrfIssue (since fresh_tab
     (fst (prepare offline_backend ''/api/v1/e2e-tests/run'' post_options fresh_tab))) = [] \<and>
   sent_csrf Original (since fresh_tab
     (fst (apiRequest offline_backend ''/api/v1/e2e-tests/run'' post_options fresh_tab))) = [None] \<and>
   warnings (since fresh_tab
     (fst (prepare offline_backend ''/api/v1/e2e-tests/run'' post_options fresh_tab))) =
     [''/api/v1/e2e-tests/run'']"
proof -
  let ?e = "''/api/v1/e2e-tests/run''"
  note ev = world_defs client_defs padded_cookie_tab_def nbsp_cookie_tab_def
  have hw: "has_window signed_in_tab" "has_window padded_cookie_tab"
    "has_window signed_in_no_csrf" "has_window fresh_tab" "has_window nbsp_cookie_tab"
    by (simp_all add: ev)
  have m: "opt_method post_options = Some ''post''"
    by (simp add: post_options_def)
  have u: "toUpperCase ''post'' \<in> set [''POST'', ''PUT'', ''DELETE'', ''PATCH'']"
    by (simp add: toUpperCase_def upper_char_def)
  have a: "sessionStorage signed_in_tab ''csrf_token'' = Some ''csrf''"
    by (simp add: ev)
  have b: "\<not> truthy_str (sessionStorage padded_cookie_tab ''csrf_token'')"
    "cookie_token (cookie padded_cookie_tab) = Some ''abc123''"
    by (simp_all add: ev)
  have b': "\<not> truthy_str (sessionStorage nbsp_cookie_tab ''csrf_token'')"
    "cookie_token (cookie nbsp_cookie_tab) = Some ''first''"
    by (simp_all add: ev)
  have c: "\<not> truthy_str (sessionStorage signed_in_no_csrf ''csrf_token'')"
    "\<not> truthy_str (cookie_token (cookie signed_in_no_csrf))"
    "localStorage signed_in_no_csrf ''auth_token'' = Some ''access''"
    "API_URL signed_in_no_csrf = ''http://localhost:7300''"
    "issued_token (csrf_strict_backend (trace signed_in_no_csrf)
       \<lparr>url = ''http://localhost:7300/api/v1/csrf-token'', http_method = Some ''GET'',
        headers = [''Authorization'' \<mapsto> ''Bearer access''], payload = NoBody\<rparr>) =
     Some (JStr ''fresh'')"
    "base_headers post_options signed_in_no_csrf =
       [''Content-Type'' \<mapsto> ''application/json'', ''Authorization'' \<mapsto> ''Bearer access'']"
    by (simp_all add: ev csrf_strict_backend_def Let_def)
  have d: "\<not> truthy_str (sessionStorage fresh_tab ''csrf_token'')"
    "\<not> truthy_str (cookie_token (cookie fresh_tab))"
    "\<not> truthy_str (localStorage fresh_tab ''auth_token'')"
    by (simp_all add: ev)
  have o: "opt_body post_options = Raw ''{}''"
    by (simp add: post_options_def)
  have bh: "base_headers post_options w ''X-CSRF-Token'' = None" for w
    by (simp add: base_headers_csrf post_options_def)
  have n1: "fetched CsrfIssue (since signed_in_tab
             (fst (prepare offline_backend ?e post_options signed_in_tab))) = [] \<and>
           sent_csrf Original (since signed_in_tab
             (fst (apiRequest offline_backend ?e post_options signed_in_tab))) = [Some ''csrf'']"
    using csrf_resolution_order [OF hw(1) m u, where s = "''csrf''" and srv = offline_backend
        and endpoint = ?e] a
    by (simp add: sent_csrf_def since_def)
  have n2: "sessionStorage (fst (prepare offline_backend ?e post_options padded_cookie_tab))
             ''csrf_token'' = Some ''abc123'' \<and>
           sent_csrf Original (since padded_cookie_tab
             (fst (apiRequest offline_backend ?e post_options padded_cookie_tab))) = [Some ''abc123'']"
    using csrf_resolution_order [OF hw(2) m u, where t = "''abc123''" and srv = offline_backend
        and endpoint = ?e] b
    by (simp add: sent_csrf_def)
  have n2b: "sent_csrf Original (since nbsp_cookie_tab
             (fst (apiRequest offline_backend ?e post_options nbsp_cookie_tab))) = [Some ''first'']"
    using csrf_resolution_order [OF hw(5) m u, where t = "''first''" and srv = offline_backend
        and endpoint = ?e] b'
    by (simp add: sent_csrf_def)
  have n3: "fetched CsrfIssue (since signed_in_no_csrf
             (fst (prepare csrf_strict_backend ?e post_options signed_in_no_csrf))) =
             [\<lparr>url = ''http://localhost:7300/api/v1/csrf-token'', http_method = Some ''GET'',
               headers = [''Authorization'' \<mapsto> ''Bearer access''], payload = NoBody\<rparr>] \<and>
           sessionStorage (fst (prepare csrf_strict_backend ?e post_options signed_in_no_csrf))
             ''csrf_token'' = Some ''fresh'' \<and>
           fetched Original (since signed_in_no_csrf
             (fst (apiRequest csrf_strict_backend ?e post_options signed_in_no_csrf))) =
             [\<lparr>url = ''http://localhost:7300/api/v1/e2e-tests/run'', http_method = Some ''post'',
               headers = [''Content-Type'' \<mapsto> ''application/json'',
                          ''Authorization'' \<mapsto> ''Bearer access'', ''X-CSRF-Token'' \<mapsto> ''fresh''],
               payload = Raw ''{}''\<rparr>]"
    using csrf_resolution_order [OF hw(3) m u, where tok = "''access''" and srv = csrf_strict_backend
        and endpoint = ?e] c(1,2,3)
    by (simp add: c(4,5,6) o)
  have n4: "fetched CsrfIssue (since fresh_tab
             (fst (prepare offline_backend ?e post_options fresh_tab))) = [] \<and>
           sent_csrf Original (since fresh_tab
             (fst (apiRequest offline_backend ?e post_options fresh_tab))) = [None] \<and>
           warnings (since fresh_tab (fst (prepare offline_backend ?e post_options fresh_tab))) = [?e]"
    using csrf_resolution_order [OF hw(4) m u, where srv = offline_backend and endpoint = ?e] d
    by (simp add: sent_csrf_def bh)
  show ?thesis
    using hw m u a b b' c(1,2,3) d n1 n2 n2b n3 n4 by simp
qed

section \<open>A cookie value that contains an equals sign\<close>

text \<open>
  Claim C9 says that when the value of the \<^verbatim>\<open>csrf_token\<close> cookie contains \<^verbatim>\<open>=\<close>,
  \<^verbatim>\<open>getCsrfToken\<close> returns the part of the value before it, and that this part is what
  is cached in the session storage and sent as \<^verbatim>\<open>X-CSRF-Token\<close>.  The last part fails
  when the value starts with \<^verbatim>\<open>=\<close>: the part before it is the empty string, which is
  cached, but line 113 takes it for a missing token.  Here the token \<^verbatim>\<open>fresh\<close> of the
  issuing endpoint is sent, and replaces the empty string in the cache.
\<close>

theorem leading_equals_not_sent:
  "find_csrf_cookie (cookie leading_eq_tab) = Some ''csrf_token==abc'' \<and>
   snd (getCsrfToken leading_eq_tab) = Some [] \<and>
   sessionStorage (fst (getCsrfToken leading_eq_tab)) ''csrf_token'' = Some [] \<and>
   is_mutating (method_of post_options) \<and>
   sent_csrf Original (since leading_eq_tab
     (fst (apiRequest csrf_strict_backend ''/api/v1/e2e-tests/run'' post_options leading_eq_tab))) =
     [Some ''fresh''] \<and>
   sessionStorage (fst (prepare csrf_strict_backend ''/api/v1/e2e-tests/run'' post_options
     leading_eq_tab)) ''csrf_token'' = Some ''fresh''"
  by (simp add: world_defs client_defs leading_eq_tab_def sent_csrf_def csrf_strict_backend_def
      Let_def)

text \<open>
  Claim C9 as amended: with no token cached, when the \<^verbatim>\<open>csrf_token\<close> cookie that
  \<^verbatim>\<open>getCsrfToken\<close> finds (the first one, white space before its name aside) has a
  value containing \<^verbatim>\<open>=\<close>, the call returns the part \<open>v\<close> of the value before the
  first \<^verbatim>\<open>=\<close> and caches it in the session storage; and when \<open>v\<close> is not empty, a
  mutating request is sent with \<open>v\<close> as its \<^verbatim>\<open>X-CSRF-Token\<close>, with \<open>v\<close> still in the
  cache.
\<close>

theorem cookie_value_cut_at_equals:
  assumes "has_window w"
      and "\<not> truthy_str (sessionStorage w ''csrf_token'')"
      and "find_csrf_cookie (cookie w) = Some (ws @ ''csrf_token='' @ v @ ''='' @ rest)"
      and "\<forall>ch\<in>set ws. is_space ch"
      and "CHR ''='' \<notin> set v"
  shows "getCsrfToken w =
           (w\<lparr>sessionStorage := (sessionStorage w)(''csrf_token'' \<mapsto> v)\<rparr>, Some v) \<and>
         (v \<noteq> [] \<and> opt_method opts = Some m \<and>
          toUpperCase m \<in> set [''POST'', ''PUT'', ''DELETE'', ''PATCH''] \<longrightarrow>
            sessionStorage (fst (prepare srv endpoint opts w)) ''csrf_token'' = Some v \<and>
            sent_csrf Original (since w (fst (apiRequest srv endpoint opts w))) = [Some v])"
proof -
  have c: "cookie_token (cookie w) = Some v"
    using assms(3) second_segment_value [OF assms(4,5)]
    by (simp add: cookie_token_def)
  have g: "getCsrfToken w =
           (w\<lparr>sessionStorage := (sessionStorage w)(''csrf_token'' \<mapsto> v)\<rparr>, Some v)"
    using assms(1,2) c by (rule getCsrfToken_from_cookie)
  have s: "sessionStorage (fst (prepare srv endpoint opts w)) ''csrf_token'' = Some v \<and>
           sent_csrf Original (since w (fst (apiRequest srv endpoint opts w))) = [Some v]"
    if "v \<noteq> []" "opt_method opts = Some m"
      "toUpperCase m \<in> set [''POST'', ''PUT'', ''DELETE'', ''PATCH'']"
  proof -
    have mu: "is_mutating (method_of opts)"
      using that(2,3) by (rule is_mutating_method_of)
    show ?thesis
      using prepare_from_cookie [OF assms(1) mu assms(2) c that(1), of srv endpoint]
      by (simp add: sent_csrf_def apiRequest_sent_original original_request_headers)
  qed
  show ?thesis
    using g s by blast
qed

theorem cookie_value_cut_at_equals_witness:
  "has_window padded_cookie_tab \<and>
   \<not> truthy_str (sessionStorage padded_cookie_tab ''csrf_token'') \<and>
   find_csrf_cookie (cookie padded_cookie_tab) = Some ('' '' @ ''csrf_token='' @ ''abc123'' @ ''='' @ ''='') \<and>
   is_space CHR '' '' \<and> CHR ''='' \<notin> set ''abc123'' \<and>
   ''abc123'' \<noteq> [] \<and> opt_method post_options = Some ''post'' \<and>
   toUpperCase ''post'' \<in> set [''POST'', ''PUT'', ''DELETE'', ''PATCH''] \<and>
   snd (getCsrfToken padded_cookie_tab) = Some ''abc123'' \<and>
   sessionStorage (fst (getCsrfToken padded_cookie_tab)) ''csrf_token'' = Some ''abc123'' \<and>
   sent_csrf Original (since padded_cookie_tab
     (fst (apiRequest offline_backend ''/api/v1/e2e-tests/run'' post_options padded_cookie_tab))) =
     [Some ''abc123''] \<and>
   has_window nbsp_cookie_tab \<and>
   \<not> truthy_str (sessionStorage nbsp_cookie_tab ''csrf_token'') \<and>
   find_csrf_cookie (cookie nbsp_cookie_tab) =
     Some ([CHR 0xA0] @ ''csrf_token='' @ ''first'' @ ''='' @ ''1'') \<and>
   is_space (CHR 0xA0) \<and> CHR ''='' \<notin> set ''first'' \<and>
   snd (getCsrfToken nbsp_cookie_tab) = Some ''first'' \<and>
   sessionStorage (fst (getCsrfToken nbsp_cookie_tab)) ''csrf_token'' = Some ''first'' \<and>
   sent_csrf Original (since nbsp_cookie_tab
     (fst (apiRequest offline_backend ''/api/v1/e2e-tests/run'' post_options nbsp_cookie_tab))) =
     [Some ''first'']"
proof -
  have a: "has_window padded_cookie_tab"
    "\<not> truthy_str (sessionStorage padded_cookie_tab ''csrf_token'')"
    by (simp_all add: world_defs padded_cookie_tab_def truthy_str_def)
  have b: "find_csrf_cookie (cookie padded_cookie_tab) =
             Some ('' '' @ ''csrf_token='' @ ''abc123'' @ ''='' @ ''='')"
    by (simp add: world_defs client_defs padded_cookie_tab_def)
  have c: "\<forall>ch\<in>set '' ''. is_space ch" "CHR ''='' \<notin> set ''abc123''"
    by (simp_all add: is_space_def)
  have a': "has_window nbsp_cookie_tab"
    "\<not> truthy_str (sessionStorage nbsp_cookie_tab ''csrf_token'')"
    by (simp_all add: world_defs nbsp_cookie_tab_def truthy_str_def)
  have b': "find_csrf_cookie (cookie nbsp_cookie_tab) =
             Some ([CHR 0xA0] @ ''csrf_token='' @ ''first'' @ ''='' @ ''1'')"
    by (simp add: world_defs client_defs nbsp_cookie_tab_def)
  have c': "\<forall>ch\<in>set [CHR 0xA0]. is_space ch" "CHR ''='' \<notin> set ''first''"
    by (simp_all add: is_space_def)
  have m: "opt_method post_options = Some ''post''"
    by (simp add: post_options_def)
  have u: "toUpperCase ''post'' \<in> set [''POST'', ''PUT'', ''DELETE'', ''PATCH'']"
    by (simp add: toUpperCase_def upper_char_def)
  have n: "''abc123'' \<noteq> []" "''first'' \<noteq> []"
    by simp_all
  have n1: "getCsrfToken padded_cookie_tab =
              (padded_cookie_tab\<lparr>sessionStorage :=
                 (sessionStorage padded_cookie_tab)(''csrf_token'' \<mapsto> ''abc123'')\<rparr>,
               Some ''abc123'') \<and>
            sent_csrf Original (since padded_cookie_tab
              (fst (apiRequest offline_backend ''/api/v1/e2e-tests/run'' post_options
                 padded_cookie_tab))) = [Some ''abc123'']"
    using cookie_value_cut_at_equals [OF a b c, of post_options "''post''" offline_backend
        "''/api/v1/e2e-tests/run''"] n(1) m u
    by blast
  have n2: "getCsrfToken nbsp_cookie_tab =
              (nbsp_cookie_tab\<lparr>sessionStorage :=
                 (sessionStorage nbsp_cookie_tab)(''csrf_token'' \<mapsto> ''first'')\<rparr>,
               Some ''first'') \<and>
            sent_csrf Original (since nbsp_cookie_tab
              (fst (apiRequest offline_backend ''/api/v1/e2e-tests/run'' post_options
                 nbsp_cookie_tab))) = [Some ''first'']"
    using cookie_value_cut_at_equals [OF a' b' c', of post_options "''post''" offline_backend
        "''/api/v1/e2e-tests/run''"] n(2) m u
    by blast
  show ?thesis
    using a b c a' b' c' m u n1 n2 by simp
qed

end
